theory Spec2Isabelle
  imports Main
begin

section \<open>JavaScript values, as far as the proxy looks at them\<close>

text \<open>
  A string is a list of characters, standing for the code units of a JavaScript string;
  \<open>substring(0, 8)\<close> is \<open>take 8\<close>. What a call may throw is a value: a thrown
  \<open>Response\<close> object carries its status and status text, every other error is
  \<open>OtherError\<close>.
\<close>

datatype js_error = ResponseError nat string | OtherError

datatype 'a js_result = Returned 'a | Thrown js_error

text \<open>
  What \<open>response.json()\<close> can return. A number is kept as the text that JavaScript
  prints for it (\<open>0\<close> for both zeros), which is all the proxy ever asks of a number:
  whether it is zero, and its \<open>toString()\<close>. A property that is absent
  (\<open>undefined\<close>) is \<open>None\<close> where a property is read.
\<close>

datatype json =
    JNull
  | JBool bool
  | JNum string
  | JStr string
  | JArr "json list"
  | JObj "(string \<times> json) list"

fun truthy :: "json option \<Rightarrow> bool" where
  "truthy None = False"
| "truthy (Some JNull) = False"
| "truthy (Some (JBool b)) = b"
| "truthy (Some (JNum n)) = (n \<noteq> ''0'')"
| "truthy (Some (JStr s)) = (s \<noteq> [])"
| "truthy (Some (JArr xs)) = True"
| "truthy (Some (JObj kvs)) = True"

text \<open>\<open>!s\<close> for a value that is a string or \<open>undefined\<close>/\<open>null\<close>.\<close>

fun falsy :: "string option \<Rightarrow> bool" where
  "falsy None = True"
| "falsy (Some s) = (s = [])"

definition startsWith :: "string \<Rightarrow> string \<Rightarrow> bool" where
  "startsWith s p = (take (length p) s = p)"

definition lowerChar :: "char \<Rightarrow> char" where
  "lowerChar c =
     (if 65 \<le> (of_char c :: nat) \<and> (of_char c :: nat) \<le> 90
      then char_of ((of_char c :: nat) + 32) else c)"

definition toLowerCase :: "string \<Rightarrow> string" where
  "toLowerCase s = map lowerChar s"

text \<open>
  The own property names of \<open>Object.prototype\<close>. The session table is a plain object
  literal, so reading it at one of these names finds the inherited member (a function, or
  the prototype itself for \<open>__proto__\<close>), which is truthy and has no \<open>transport\<close>.
\<close>

definition objectPrototypeKeys :: "string list" where
  "objectPrototypeKeys =
     [''constructor'', ''__defineGetter__'', ''__defineSetter__'', ''hasOwnProperty'',
      ''__lookupGetter__'', ''__lookupSetter__'', ''isPrototypeOf'',
      ''propertyIsEnumerable'', ''toString'', ''valueOf'', ''__proto__'',
      ''toLocaleString'']"

datatype 'a property = Own 'a | Inherited | Missing

definition getProperty :: "(string \<rightharpoonup> 'a) \<Rightarrow> string \<Rightarrow> 'a property" where
  "getProperty obj k =
     (case obj k of
        Some v \<Rightarrow> Own v
      | None \<Rightarrow> if k \<in> set objectPrototypeKeys then Inherited else Missing)"

section \<open>The data of startSSEServer\<close>

record IncomingMessage =
  httpMethod :: string
  url :: "string option"
  headers :: "string \<rightharpoonup> string"

record AuthResult =
  userId :: json
  permissions :: "json option"
  env :: "json option"

type_synonym AuthHandler = "string \<Rightarrow> AuthResult option js_result"

text \<open>
  The transport the SDK constructs for a connection: its generated \<open>sessionId\<close> (a
  random UUID, so never a property name of \<open>Object.prototype\<close>), and whether \<open>send\<close>
  of a message resolves (\<open>True\<close>) or rejects.
\<close>

record SSEServerTransport =
  sessionId :: string
  send :: "json \<Rightarrow> bool"

text \<open>
  \<open>ServerLike\<close>: \<open>connect\<close> and \<open>close\<close> say whether the promise resolves
  (\<open>True\<close>) or rejects. A server of type \<open>T extends ServerLike\<close> is any extension of
  the record.
\<close>

record ServerLike =
  connect :: "SSEServerTransport \<Rightarrow> bool"
  close :: bool

record session =
  transport :: SSEServerTransport
  s_userId :: "json option"
  s_env :: "json option"
  s_apiKey :: string

type_synonym registry = "string \<rightharpoonup> session"

datatype reply = Reply nat string | NoReply | Uncaught

record 'srv config =
  port :: nat
  endpoint :: string
  createServer :: "IncomingMessage \<Rightarrow> json option \<Rightarrow> json option \<Rightarrow> 'srv js_result"
  onConnect :: "('srv \<Rightarrow> json option \<Rightarrow> bool) option"
  onClose :: "('srv \<Rightarrow> bool) option"
  onUnhandledRequest :: "(IncomingMessage \<Rightarrow> reply) option"
  apiKey :: "string option"
  apiKeyHeaderName :: string
  authHandler :: "AuthHandler option"

text \<open>
  What the runtime contributes to one request: the platform's URL parser
  (\<open>searchParam u base name\<close> is \<open>new URL(u, base).searchParams.get(name)\<close>, which
  throws on an invalid URL and gives \<open>null\<close> for an absent parameter), the transport
  that \<open>new SSEServerTransport("/messages", res)\<close> returns, the value of the local
  flag \<open>closed\<close> when the catch block of the attach reads it (the close handler sets
  it when the connection closes while the handler is suspended), and whether the headers
  of the response had been written by then (the transport writes them when the server
  starts it).
\<close>

record runtime =
  searchParam :: "string \<Rightarrow> string \<Rightarrow> string \<Rightarrow> string option js_result"
  newTransport :: SSEServerTransport
  closed :: bool
  headersSent :: bool

text \<open>The calls the listener makes on its collaborators, in order.\<close>

datatype 'srv action =
    CreateServer "json option" "json option"
  | ServerConnect 'srv SSEServerTransport
  | TransportSend SSEServerTransport json
  | OnConnect 'srv "json option"
  | HandlePostMessage SSEServerTransport
  | OnUnhandledRequest
  | ServerClose 'srv
  | OnClose 'srv

text \<open>
  The result of one run of the request listener: what it wrote to the response
  (\<open>NoReply\<close>: nothing of its own, the transport or nobody answers; \<open>Uncaught\<close>: the
  listener's promise rejected), the session table afterwards, its calls, and the close
  handler it registered on the response, as the pair of values the closure captures.
\<close>

record 'srv outcome =
  reply :: reply
  activeTransports :: registry
  actions :: "'srv action list"
  closeHandler :: "(SSEServerTransport \<times> 'srv) option"

section \<open>The request listener\<close>

datatype route = Options | Ping | Connect | Message | Unhandled

definition urlStartsWith :: "string option \<Rightarrow> string \<Rightarrow> bool" where
  "urlStartsWith u p = (case u of None \<Rightarrow> False | Some s \<Rightarrow> startsWith s p)"

definition route_of :: "string \<Rightarrow> IncomingMessage \<Rightarrow> route" where
  "route_of ep req =
     (if httpMethod req = ''OPTIONS'' then Options
      else if httpMethod req = ''GET'' \<and> url req = Some ''/ping'' then Ping
      else if httpMethod req = ''GET'' \<and> urlStartsWith (url req) ep then Connect
      else if httpMethod req = ''POST'' \<and> urlStartsWith (url req) ''/messages'' then Message
      else Unhandled)"

definition hostBase :: "IncomingMessage \<Rightarrow> string" where
  "hostBase req =
     ''http://'' @ (case headers req ''host'' of None \<Rightarrow> ''undefined'' | Some h \<Rightarrow> h)"

text \<open>Lines 90 to 105: the credential from the header, else from the query string.\<close>

definition requestApiKey :: "runtime \<Rightarrow> 'srv config \<Rightarrow> IncomingMessage \<Rightarrow> string option" where
  "requestApiKey rt cfg req =
     (let h = headers req (toLowerCase (apiKeyHeaderName cfg)) in
      if falsy h \<and> url req \<noteq> Some (endpoint cfg) then
        (case url req of
           None \<Rightarrow> h
         | Some u \<Rightarrow>
             (case searchParam rt u (hostBase req) ''apiKey'' of
                Returned (Some v) \<Rightarrow> Some v
              | Returned None \<Rightarrow> Some []
              | Thrown e \<Rightarrow> h))
      else h)"

text \<open>
  Lines 107 to 130: admission. The outcome is the answer that refuses the attempt, or an
  uncaught rejection of the handler, or the credential with the \<open>userId\<close> and
  \<open>env\<close> for the session factory (\<open>None\<close> where the listener leaves them
  undefined). The test \<open>apiKey &&\<close> holds for a configured, non-empty key.
\<close>

datatype admission =
    Rejected nat string
  | AuthThrew
  | Admitted string "json option" "json option"

definition admit :: "'srv config \<Rightarrow> string option \<Rightarrow> admission" where
  "admit cfg key =
     (case key of
        None \<Rightarrow> Rejected 401 ''Unauthorized: Missing API key''
      | Some k \<Rightarrow>
          if k = [] then Rejected 401 ''Unauthorized: Missing API key''
          else
            (case authHandler cfg of
               Some h \<Rightarrow>
                 (case h k of
                    Thrown e \<Rightarrow> AuthThrew
                  | Returned None \<Rightarrow> Rejected 401 ''Unauthorized: Invalid API key''
                  | Returned (Some r) \<Rightarrow> Admitted k (Some (userId r)) (env r))
             | None \<Rightarrow>
                 (case apiKey cfg of
                    None \<Rightarrow> Admitted k None None
                  | Some a \<Rightarrow>
                      if a \<noteq> [] \<and> k \<noteq> a
                      then Rejected 401 ''Unauthorized: Invalid API key''
                      else Admitted k None None)))"

definition connectionNotification :: json where
  "connectionNotification =
     JObj [(''jsonrpc'', JStr ''2.0''), (''method'', JStr ''sse/connection''),
           (''params'', JObj [(''message'', JStr ''SSE Connection established'')])]"

text \<open>
  Lines 166 to 175, the body of the try block: how far it gets, and the calls made.
\<close>

datatype attached = Attached | ConnectRejected | SendRejected | OnConnectThrew

definition attach ::
  "('x ServerLike_scheme) config \<Rightarrow> 'x ServerLike_scheme \<Rightarrow> SSEServerTransport \<Rightarrow>
   json option \<Rightarrow> attached \<times> 'x ServerLike_scheme action list" where
  "attach cfg server t uid =
     (if \<not> connect server t then (ConnectRejected, [ServerConnect server t])
      else if \<not> send t connectionNotification
      then (SendRejected, [ServerConnect server t, TransportSend t connectionNotification])
      else
        (case onConnect cfg of
           None \<Rightarrow>
             (Attached, [ServerConnect server t, TransportSend t connectionNotification])
         | Some f \<Rightarrow>
             (if f server uid then Attached else OnConnectThrew,
              [ServerConnect server t, TransportSend t connectionNotification,
               OnConnect server uid])))"

text \<open>
  Lines 176 to 181, the catch block. It writes nothing when the connection has closed.
  Otherwise it writes status 500, and \<open>writeHead\<close> throws when the headers of the
  response have been written already, so that the listener's promise rejects: that is the
  case once the announcement has been sent down the stream, and else as the runtime says.
\<close>

definition attachFailed :: "runtime \<Rightarrow> attached \<Rightarrow> reply" where
  "attachFailed rt a =
     (if closed rt then NoReply
      else if a = OnConnectThrew \<or> headersSent rt then Uncaught
      else Reply 500 ''Error connecting to server'')"

text \<open>Lines 82 to 184: a connect attempt.\<close>

definition handleConnect ::
  "runtime \<Rightarrow> ('x ServerLike_scheme) config \<Rightarrow> registry \<Rightarrow> IncomingMessage \<Rightarrow>
   'x ServerLike_scheme outcome" where
  "handleConnect rt cfg reg req =
     (case admit cfg (requestApiKey rt cfg req) of
        Rejected st why \<Rightarrow>
          \<lparr>reply = Reply st why, activeTransports = reg, actions = [], closeHandler = None\<rparr>
      | AuthThrew \<Rightarrow>
          \<lparr>reply = Uncaught, activeTransports = reg, actions = [], closeHandler = None\<rparr>
      | Admitted k uid e \<Rightarrow>
          (let t = newTransport rt in
           case createServer cfg req uid e of
             Thrown (ResponseError st txt) \<Rightarrow>
               \<lparr>reply = Reply st txt, activeTransports = reg,
                actions = [CreateServer uid e], closeHandler = None\<rparr>
           | Thrown OtherError \<Rightarrow>
               \<lparr>reply = Reply 500 ''Error creating server'', activeTransports = reg,
                actions = [CreateServer uid e], closeHandler = None\<rparr>
           | Returned server \<Rightarrow>
               (let reg' = reg(sessionId t \<mapsto>
                       \<lparr>transport = t, s_userId = uid, s_env = e, s_apiKey = k\<rparr>);
                    a = attach cfg server t uid
                in \<lparr>reply = (if fst a = Attached then NoReply else attachFailed rt (fst a)),
                     activeTransports = reg',
                     actions = CreateServer uid e # snd a,
                     closeHandler = Some (t, server)\<rparr>)))"

text \<open>
  Lines 186 to 216: a posted message. The URL is parsed outside any try block. The call
  \<open>handlePostMessage\<close> of the SDK answers the request itself and is taken to resolve.
\<close>

definition handleMessage ::
  "runtime \<Rightarrow> registry \<Rightarrow> string \<Rightarrow> 'srv outcome" where
  "handleMessage rt reg u =
     (case searchParam rt u ''https://example.com'' ''sessionId'' of
        Thrown e \<Rightarrow>
          \<lparr>reply = Uncaught, activeTransports = reg, actions = [], closeHandler = None\<rparr>
      | Returned p \<Rightarrow>
          (case p of
             None \<Rightarrow>
               \<lparr>reply = Reply 400 ''No sessionId'', activeTransports = reg, actions = [],
                closeHandler = None\<rparr>
           | Some sid \<Rightarrow>
               if sid = [] then
                 \<lparr>reply = Reply 400 ''No sessionId'', activeTransports = reg, actions = [],
                  closeHandler = None\<rparr>
               else
                 (case getProperty reg sid of
                    Missing \<Rightarrow>
                      \<lparr>reply = Reply 400 ''No active transport'', activeTransports = reg,
                       actions = [], closeHandler = None\<rparr>
                  | Inherited \<Rightarrow>
                      \<lparr>reply = Uncaught, activeTransports = reg, actions = [],
                       closeHandler = None\<rparr>
                  | Own s \<Rightarrow>
                      \<lparr>reply = NoReply, activeTransports = reg,
                       actions = [HandlePostMessage (transport s)],
                       closeHandler = None\<rparr>)))"

text \<open>
  Lines 57 to 223. The response headers (the reflected origin of lines 58 to 69) are not
  part of the outcome.
\<close>

definition requestListener ::
  "runtime \<Rightarrow> ('x ServerLike_scheme) config \<Rightarrow> registry \<Rightarrow> IncomingMessage \<Rightarrow>
   'x ServerLike_scheme outcome" where
  "requestListener rt cfg reg req =
     (case route_of (endpoint cfg) req of
        Options \<Rightarrow>
          \<lparr>reply = Reply 204 [], activeTransports = reg, actions = [], closeHandler = None\<rparr>
      | Ping \<Rightarrow>
          \<lparr>reply = Reply 200 ''pong'', activeTransports = reg, actions = [],
           closeHandler = None\<rparr>
      | Connect \<Rightarrow> handleConnect rt cfg reg req
      | Message \<Rightarrow>
          (case url req of
             None \<Rightarrow>
               \<lparr>reply = Uncaught, activeTransports = reg, actions = [], closeHandler = None\<rparr>
           | Some u \<Rightarrow> handleMessage rt reg u)
      | Unhandled \<Rightarrow>
          (case onUnhandledRequest cfg of
             Some f \<Rightarrow>
               \<lparr>reply = f req, activeTransports = reg, actions = [OnUnhandledRequest],
                closeHandler = None\<rparr>
           | None \<Rightarrow>
               \<lparr>reply = Reply 404 [], activeTransports = reg, actions = [],
                closeHandler = None\<rparr>))"

text \<open>
  Lines 152 to 164: the handler of the response's close event, for the transport and the
  server its closure holds. A rejection of \<open>server.close()\<close> is caught and logged, and
  the handler goes on either way, so the outcome does not depend on \<open>close server\<close>.
  It is \<open>Uncaught\<close> when \<open>onClose\<close> throws.
\<close>

definition onResClose ::
  "('x ServerLike_scheme) config \<Rightarrow> registry \<Rightarrow> SSEServerTransport \<times> 'x ServerLike_scheme \<Rightarrow>
   'x ServerLike_scheme outcome" where
  "onResClose cfg reg h =
     (case h of (t, server) \<Rightarrow>
        \<lparr>reply =
           (case onClose cfg of
              None \<Rightarrow> NoReply
            | Some f \<Rightarrow> if f server then NoReply else Uncaught),
         activeTransports = reg(sessionId t := None),
         actions =
           ServerClose server #
           (case onClose cfg of None \<Rightarrow> [] | Some f \<Rightarrow> [OnClose server]),
         closeHandler = None\<rparr>)"

section \<open>The command-line program\<close>

text \<open>
  The network as \<open>verifyApiKey\<close> sees it: \<open>encodeURIComponent\<close> (which throws on a
  lone surrogate), \<open>fetch\<close> of a URL (which throws on a transport error), and the
  response with its \<open>ok\<close> flag, its status and what \<open>response.json()\<close> gives.
\<close>

record FetchResponse =
  ok :: bool
  status :: nat
  jsonBody :: "json js_result"

record net =
  encodeURIComponent :: "string \<Rightarrow> string js_result"
  fetch :: "string \<Rightarrow> FetchResponse js_result"

text \<open>
  Reading a property of parsed JSON: a \<open>TypeError\<close> on \<open>null\<close>, the member of an
  object (the last one of a repeated name, as \<open>JSON.parse\<close> keeps it), \<open>undefined\<close>
  on every other value. It is used at the names \<open>valid\<close>, \<open>userId\<close>, \<open>permissions\<close>
  and \<open>env\<close> only, which no prototype defines.
\<close>

fun getField :: "json \<Rightarrow> string \<Rightarrow> json option js_result" where
  "getField JNull k = Thrown OtherError"
| "getField (JObj kvs) k = Returned (map_of (rev kvs) k)"
| "getField (JBool b) k = Returned None"
| "getField (JNum n) k = Returned None"
| "getField (JStr s) k = Returned None"
| "getField (JArr xs) k = Returned None"

text \<open>\<open>a || b\<close>.\<close>

definition orElse :: "json option \<Rightarrow> json \<Rightarrow> json" where
  "orElse a b = (case a of None \<Rightarrow> b | Some v \<Rightarrow> if truthy (Some v) then v else b)"

definition derivedUserId :: "string \<Rightarrow> json" where
  "derivedUserId k = JStr (''user-'' @ take 8 k)"

text \<open>Lines 81 to 103, the body of the try block of \<open>verifyApiKey\<close>.\<close>

definition verifyApiKeyBody :: "net \<Rightarrow> string \<Rightarrow> string \<Rightarrow> AuthResult option js_result" where
  "verifyApiKeyBody nw k authServerUrl =
     (case encodeURIComponent nw k of
        Thrown e \<Rightarrow> Thrown e
      | Returned q \<Rightarrow>
          (case fetch nw (authServerUrl @ ''?apiKey='' @ q) of
             Thrown e \<Rightarrow> Thrown e
           | Returned response \<Rightarrow>
               if \<not> ok response then Returned None
               else
                 (case jsonBody response of
                    Thrown e \<Rightarrow> Thrown e
                  | Returned data \<Rightarrow>
                      (case getField data ''valid'' of
                         Thrown e \<Rightarrow> Thrown e
                       | Returned v \<Rightarrow>
                           if truthy v then
                             (case (getField data ''userId'', getField data ''permissions'',
                                    getField data ''env'') of
                                (Returned u, Returned p, Returned e) \<Rightarrow>
                                  Returned (Some
                                    \<lparr>userId = orElse u (derivedUserId k),
                                     permissions = Some (orElse p (JArr [])),
                                     env = Some (orElse e (JObj []))\<rparr>)
                              | _ \<Rightarrow> Thrown OtherError)
                           else Returned None))))"

text \<open>Lines 77 to 108: the early return, and the catch that turns every error into null.\<close>

definition verifyApiKey :: "net \<Rightarrow> string \<Rightarrow> string \<Rightarrow> AuthResult option js_result" where
  "verifyApiKey nw k authServerUrl =
     (if authServerUrl = [] then Returned None
      else
        (case verifyApiKeyBody nw k authServerUrl of
           Returned r \<Rightarrow> Returned r
         | Thrown e \<Rightarrow> Returned None))"

text \<open>
  Lines 133 to 142: \<open>remoteVerification\<close>, from the environment variable
  \<open>AUTH_SERVER_URL\<close>.
\<close>

definition remoteVerification :: "string option \<Rightarrow> bool" where
  "remoteVerification authServerUrl = (\<not> falsy authServerUrl)"

text \<open>Lines 177 to 187: the handler the program hands to \<open>startSSEServer\<close>.\<close>

definition cliAuthHandler :: "net \<Rightarrow> string option \<Rightarrow> AuthHandler" where
  "cliAuthHandler nw authServerUrl k =
     (if k = [] then Returned None
      else if remoteVerification authServerUrl then
        (case authServerUrl of
           Some u \<Rightarrow> verifyApiKey nw k u
         | None \<Rightarrow> Returned None)
      else Returned (Some \<lparr>userId = derivedUserId k, permissions = None, env = None\<rparr>))"

subsection \<open>The process environment\<close>

definition digitChar :: "nat \<Rightarrow> char" where
  "digitChar d = char_of (48 + d)"

fun showNat :: "nat \<Rightarrow> string" where
  "showNat n = (if n < 10 then [digitChar n] else showNat (n div 10) @ [digitChar (n mod 10)])"

declare showNat.simps [simp del]

definition joinComma :: "string list \<Rightarrow> string" where
  "joinComma xs = (case xs of [] \<Rightarrow> [] | y # ys \<Rightarrow> y @ concat (map (\<lambda>s. CHR '','' # s) ys))"

text \<open>\<open>value.toString()\<close> for a value that is neither undefined nor null.\<close>

fun toString :: "json \<Rightarrow> string" where
  "toString JNull = []"
| "toString (JBool b) = (if b then ''true'' else ''false'')"
| "toString (JNum n) = n"
| "toString (JStr s) = s"
| "toString (JArr xs) = joinComma (map toString xs)"
| "toString (JObj kvs) = ''[object Object]''"

definition indexed :: "json list \<Rightarrow> (string \<times> json) list" where
  "indexed xs = zip (map showNat [0..<length xs]) xs"

text \<open>
  The members of a parsed object: one per name, with the value that reading the name
  gives (the last one of a repeated name).
\<close>

definition members :: "(string \<times> json) list \<Rightarrow> (string \<times> json) list" where
  "members kvs =
     map (\<lambda>k. (k, case map_of (rev kvs) k of Some v \<Rightarrow> v | None \<Rightarrow> JNull))
       (remdups (map fst kvs))"

text \<open>
  \<open>Object.entries\<close>: the members of an object, the elements of an array or string.
  JavaScript lists the names that are array indices first; the names being distinct, the
  order makes no difference to the assignments below.
\<close>

fun objectEntries :: "json \<Rightarrow> (string \<times> json) list" where
  "objectEntries (JObj kvs) = members kvs"
| "objectEntries (JArr xs) = indexed xs"
| "objectEntries (JStr s) = indexed (map (\<lambda>c. JStr [c]) s)"
| "objectEntries v = []"

type_synonym environment = "string \<rightharpoonup> string"

text \<open>
  An assignment to \<open>process.env\<close> takes effect for a name that is not empty and has
  no \<open>=\<close> in it; under any other name it is dropped.
\<close>

definition envName :: "string \<Rightarrow> bool" where
  "envName key = (key \<noteq> [] \<and> CHR ''='' \<notin> set key)"

text \<open>Lines 153 to 157: one step of the \<open>forEach\<close>, and the loop.\<close>

definition setEntry :: "environment \<Rightarrow> string \<times> json \<Rightarrow> environment" where
  "setEntry pe kv =
     (case kv of (key, v) \<Rightarrow>
        if v \<noteq> JNull \<and> envName key then pe(key \<mapsto> toString v) else pe)"

definition applyEnv :: "json option \<Rightarrow> environment \<Rightarrow> environment" where
  "applyEnv e pe =
     (case e of
        None \<Rightarrow> pe
      | Some v \<Rightarrow> if truthy (Some v) then foldl setEntry pe (objectEntries v) else pe)"

text \<open>
  The state of the program: \<open>process.env\<close>, and the environment of the upstream worker
  once it runs.

  Modelled from the spec: the upstream worker is started by \<open>StdioClientTransport\<close>,
  which is not among the sources. It is modelled as the spec describes it, one long-lived
  worker process shared by all sessions, started once when \<open>connect\<close> (lines 60 to 74)
  hands it \<open>process.env\<close>; the environment of a started process is the one it was
  started with.
\<close>

record process =
  processEnv :: environment
  workerEnv :: "environment option"

definition cliConnect :: "process \<Rightarrow> process" where
  "cliConnect p = p\<lparr>workerEnv := Some (processEnv p)\<rparr>"

text \<open>Lines 145 to 172: \<open>createServer\<close> of the program, on the state of the program.\<close>

definition cliCreateServer :: "process \<Rightarrow> json option \<Rightarrow> json option \<Rightarrow> process" where
  "cliCreateServer p uid e = p\<lparr>processEnv := applyEnv e (processEnv p)\<rparr>"

text \<open>
  Lines 110 to 188, \<open>proxy\<close>: the worker is connected first, then sessions are created
  as clients connect, here with the environments \<open>es\<close> in turn.
\<close>

definition proxy :: "process \<Rightarrow> json option list \<Rightarrow> process" where
  "proxy p es = foldl (\<lambda>q e. cliCreateServer q None e) (cliConnect p) es"

section \<open>Reading the calls of a run\<close>

text \<open>
  The sends a run makes on transports, in order; the transports a run hands a posted
  message to; and the servers a run reports closed.
\<close>

fun sent :: "'srv action list \<Rightarrow> (SSEServerTransport \<times> json) list" where
  "sent [] = []"
| "sent (TransportSend t m # as) = (t, m) # sent as"
| "sent (a # as) = sent as"

fun handed :: "'srv action list \<Rightarrow> SSEServerTransport list" where
  "handed [] = []"
| "handed (HandlePostMessage t # as) = t # handed as"
| "handed (a # as) = handed as"


section \<open>Concrete inputs\<close>

text \<open>
  A small stand-in for the platform's URL parser, for plain query strings (no escapes):
  the part after the first \<open>?\<close> up to \<open>#\<close>, split at \<open>&\<close>, each part split at its
  first \<open>=\<close>; the first parameter of the name wins.
\<close>

fun splitOn :: "char \<Rightarrow> string \<Rightarrow> string list" where
  "splitOn c [] = [] # []"
| "splitOn c (x # xs) =
     (if x = c then [] # splitOn c xs
      else (case splitOn c xs of [] \<Rightarrow> [x] # [] | p # ps \<Rightarrow> (x # p) # ps))"

fun findParam :: "string \<Rightarrow> string list \<Rightarrow> string option" where
  "findParam name [] = None"
| "findParam name (p # ps) =
     (if takeWhile (\<lambda>c. c \<noteq> CHR ''='') p = name
      then Some (drop (Suc (length name)) p)
      else findParam name ps)"

definition queryOf :: "string \<Rightarrow> string" where
  "queryOf u = takeWhile (\<lambda>c. c \<noteq> CHR ''#'') (drop 1 (dropWhile (\<lambda>c. c \<noteq> CHR ''?'') u))"

definition plainSearchParam :: "string \<Rightarrow> string \<Rightarrow> string \<Rightarrow> string option js_result" where
  "plainSearchParam u base name = Returned (findParam name (splitOn CHR ''&'' (queryOf u)))"

definition transportA :: SSEServerTransport where
  "transportA = \<lparr>sessionId = ''a1'', send = (\<lambda>m. True)\<rparr>"

definition transportB :: SSEServerTransport where
  "transportB = \<lparr>sessionId = ''b2'', send = (\<lambda>m. True)\<rparr>"

definition runtimeA :: runtime where
  "runtimeA =
     \<lparr>searchParam = plainSearchParam, newTransport = transportA, closed = False,
      headersSent = False\<rparr>"

definition goodServer :: ServerLike where
  "goodServer = \<lparr>connect = (\<lambda>t. True), close = True\<rparr>"


definition openConfig :: "ServerLike config" where
  "openConfig =
     \<lparr>port = 8080, endpoint = ''/sse'',
      createServer = (\<lambda>req uid e. Returned goodServer),
      onConnect = None, onClose = Some (\<lambda>s. True), onUnhandledRequest = None,
      apiKey = None, apiKeyHeaderName = ''x-api-key'', authHandler = None\<rparr>"

definition get :: "string \<Rightarrow> (string \<times> string) list \<Rightarrow> IncomingMessage" where
  "get u hs = \<lparr>httpMethod = ''GET'', url = Some u, headers = map_of hs\<rparr>"

definition post :: "string \<Rightarrow> IncomingMessage" where
  "post u = \<lparr>httpMethod = ''POST'', url = Some u, headers = Map.empty\<rparr>"

definition sessionA :: session where
  "sessionA = \<lparr>transport = transportA, s_userId = None, s_env = None, s_apiKey = ''k1''\<rparr>"

definition runtimeB :: runtime where
  "runtimeB =
     \<lparr>searchParam = plainSearchParam, newTransport = transportB, closed = False,
      headersSent = False\<rparr>"

definition keyHeader :: "(string \<times> string) list" where
  "keyHeader = [(''x-api-key'', ''k1'')]"

text \<open>
  A delegate that knows a few keys: \<open>k1\<close> with an identity, permissions and an
  environment, \<open>abcdefghijkl\<close> as valid with nothing else, \<open>bad\<close> as invalid,
  \<open>null\<close> with a null flag, \<open>none\<close> with an empty object, \<open>down\<close> with status
  503, \<open>html\<close> with a body that is not JSON; for any other URL the request fails.
\<close>

definition okJson :: "json \<Rightarrow> FetchResponse js_result" where
  "okJson d = Returned \<lparr>ok = True, status = 200, jsonBody = Returned d\<rparr>"

definition authFetch :: "string \<Rightarrow> FetchResponse js_result" where
  "authFetch u =
     (if u = ''http://auth/verify?apiKey=k1'' then
        okJson (JObj [(''valid'', JBool True), (''userId'', JStr ''u1''),
                      (''permissions'', JArr [JStr ''read'']),
                      (''env'', JObj [(''T'', JStr ''v1'')])])
      else if u = ''http://auth/verify?apiKey=abcdefghijkl'' then
        okJson (JObj [(''valid'', JBool True)])
      else if u = ''http://auth/verify?apiKey=bad'' then
        okJson (JObj [(''valid'', JBool False)])
      else if u = ''http://auth/verify?apiKey=null'' then
        okJson (JObj [(''valid'', JNull)])
      else if u = ''http://auth/verify?apiKey=none'' then
        okJson (JObj [])
      else if u = ''http://auth/verify?apiKey=down'' then
        Returned \<lparr>ok = False, status = 503, jsonBody = Thrown OtherError\<rparr>
      else if u = ''http://auth/verify?apiKey=html'' then
        Returned \<lparr>ok = True, status = 200, jsonBody = Thrown OtherError\<rparr>
      else Thrown OtherError)"

definition authNet :: net where
  "authNet = \<lparr>encodeURIComponent = Returned, fetch = authFetch\<rparr>"

definition authUrl :: string where
  "authUrl = ''http://auth/verify''"

text \<open>What the upstream worker finds in its environment under a name.\<close>

definition workerSees :: "process \<Rightarrow> string \<Rightarrow> string option" where
  "workerSees p key = (case workerEnv p of None \<Rightarrow> None | Some w \<Rightarrow> w key)"

definition freshProcess :: process where
  "freshProcess = \<lparr>processEnv = [''PATH'' \<mapsto> ''/usr/bin''], workerEnv = None\<rparr>"

section \<open>The close event of a response\<close>





section \<open>The listener and the message bridge together\<close>

text \<open>
  The events of the single-threaded runtime, one at a time: a request reaches the
  listener (with the runtime's contribution to it, and the identifier of the JSON-RPC
  message in its body), a response's close event runs the close handler of its closure,
  or the upstream channel emits a response that carries a session and an identifier.
\<close>

datatype 'srv event =
    Request runtime IncomingMessage json
  | ResClose "SSEServerTransport \<times> 'srv"
  | UpstreamResponse string json

text \<open>
  What is observed: a message that the listener sent reaches the push-channel of a
  transport (the announcement); a posted message addressed to a session identifier is
  handed to a transport; a response correlated with the request of a session is delivered
  down the push-channel of a transport; a response is dropped.
\<close>

datatype observation =
    Announced SSEServerTransport json
  | Handed string SSEServerTransport json
  | Delivered SSEServerTransport string json
  | Dropped string json


text \<open>
  The state: the session table of the listener, the requests forwarded upstream and not
  yet answered, each under the session that issued it, and the observations so far.
\<close>

record system =
  sessions :: registry
  outstanding :: "(string \<times> json) list"
  observed :: "observation list"

text \<open>The \<open>sessionId\<close> parameter of a request, as line 190 reads it.\<close>

definition addressed :: "runtime \<Rightarrow> IncomingMessage \<Rightarrow> string" where
  "addressed rt req =
     (case url req of
        None \<Rightarrow> []
      | Some u \<Rightarrow>
          (case searchParam rt u ''https://example.com'' ''sessionId'' of
             Returned (Some s) \<Rightarrow> s
           | Returned None \<Rightarrow> []
           | Thrown e \<Rightarrow> []))"

text \<open>
  Modelled from the spec: the Message Bridge. The relay of requests and responses
  (\<open>proxyServer\<close> and the protocol layer under it) is not among the sources. As the
  spec has it (4.3 and 5), the identifiers of a session's outstanding requests are scoped
  to that session; an upstream response is forwarded only to the session that is the
  registered owner of the matching identifier at dispatch time, down the push-channel of
  the transport registered for it; a response that matches nothing is dropped; and what
  is still pending when a session closes is discarded.
\<close>

definition dispatch :: "system \<Rightarrow> string \<Rightarrow> json \<Rightarrow> observation" where
  "dispatch st sid rid =
     (if (sid, rid) \<in> set (outstanding st) then
        (case sessions st sid of
           Some s \<Rightarrow> Delivered (transport s) sid rid
         | None \<Rightarrow> Dropped sid rid)
      else Dropped sid rid)"

text \<open>
  What one event makes observable. A request runs the listener (from the sources): the
  sends that resolved reach the push-channel, and the posted message is handed to the
  transports of the run. An upstream response is dispatched by the bridge.
\<close>

definition emits ::
  "('x ServerLike_scheme) config \<Rightarrow> system \<Rightarrow> 'x ServerLike_scheme event \<Rightarrow>
   observation list" where
  "emits cfg st ev =
     (case ev of
        Request rt req rid \<Rightarrow>
          (let r = requestListener rt cfg (sessions st) req
           in map (\<lambda>p. Announced (fst p) (snd p))
                (filter (\<lambda>p. send (fst p) (snd p)) (sent (actions r)))
              @ map (\<lambda>t. Handed (addressed rt req) t rid) (handed (actions r)))
      | ResClose h \<Rightarrow> []
      | UpstreamResponse sid rid \<Rightarrow> [dispatch st sid rid])"

text \<open>
  One event. Every transport that a request hands the message to issues the request
  upstream under its own session. A close event runs the close handler (from the sources)
  and discards what the session had pending. A response answers its request, if any.
\<close>

definition step ::
  "('x ServerLike_scheme) config \<Rightarrow> system \<Rightarrow> 'x ServerLike_scheme event \<Rightarrow> system" where
  "step cfg st ev =
     (case ev of
        Request rt req rid \<Rightarrow>
          (let r = requestListener rt cfg (sessions st) req
           in \<lparr>sessions = activeTransports r,
               outstanding =
                 outstanding st @ map (\<lambda>t. (sessionId t, rid)) (handed (actions r)),
               observed = observed st @ emits cfg st ev\<rparr>)
      | ResClose h \<Rightarrow>
          \<lparr>sessions = activeTransports (onResClose cfg (sessions st) h),
           outstanding = filter (\<lambda>p. fst p \<noteq> sessionId (fst h)) (outstanding st),
           observed = observed st @ emits cfg st ev\<rparr>
      | UpstreamResponse sid rid \<Rightarrow>
          \<lparr>sessions = sessions st,
           outstanding = remove1 (sid, rid) (outstanding st),
           observed = observed st @ emits cfg st ev\<rparr>)"

definition run ::
  "('x ServerLike_scheme) config \<Rightarrow> system \<Rightarrow> 'x ServerLike_scheme event list \<Rightarrow> system" where
  "run cfg st evs = foldl (step cfg) st evs"

definition initial :: system where
  "initial = \<lparr>sessions = Map.empty, outstanding = [], observed = []\<rparr>"


text \<open>The session table is keyed by the identifiers of the transports in it.\<close>

definition keyed :: "registry \<Rightarrow> bool" where
  "keyed reg = (\<forall>k s. reg k = Some s \<longrightarrow> sessionId (transport s) = k)"

text \<open>
  The invariant of a run: the table is keyed; a posted message went to the transport of
  the session it was addressed to; a response went to the session it is correlated with,
  which had posted the request; and every pending request was posted by its session.
\<close>

definition sound :: "system \<Rightarrow> bool" where
  "sound st =
     (keyed (sessions st)
      \<and> (\<forall>S t i. Handed S t i \<in> set (observed st) \<longrightarrow> sessionId t = S)
      \<and> (\<forall>t A i. Delivered t A i \<in> set (observed st) \<longrightarrow>
            sessionId t = A \<and> (\<exists>t'. Handed A t' i \<in> set (observed st)))
      \<and> (\<forall>A i. (A, i) \<in> set (outstanding st) \<longrightarrow> (\<exists>t'. Handed A t' i \<in> set (observed st))))"


text \<open>
  Two sessions post a request with the same identifier 1; the upstream answers the second
  first, then the first, then the first once more.
\<close>

definition twoSessions :: "ServerLike event list" where
  "twoSessions =
     [Request runtimeA (get ''/sse'' keyHeader) JNull,
      Request runtimeB (get ''/sse'' keyHeader) JNull,
      Request runtimeA (post ''/messages?sessionId=a1'') (JNum ''1''),
      Request runtimeA (post ''/messages?sessionId=b2'') (JNum ''1''),
      UpstreamResponse ''b2'' (JNum ''1''),
      UpstreamResponse ''a1'' (JNum ''1''),
      UpstreamResponse ''a1'' (JNum ''1'')]"


section \<open>Routing\<close>

lemma requestListener_connect:
  "route_of (endpoint cfg) req = Connect \<Longrightarrow>
   requestListener rt cfg reg req = handleConnect rt cfg reg req"
  by (simp add: requestListener_def)

text \<open>
  Claim C10, as amended. The listener matches its two public routes by prefix: a GET
  request whose URL begins with the configured endpoint, other than the URL \<open>/ping\<close>
  itself, is handled as a connect attempt, and a POST request whose URL begins with
  \<open>/messages\<close> is handled as a posted message.
\<close>

theorem C10_prefix_routing:
  "(httpMethod req = ''GET'' \<and> url req = Some u \<and> startsWith u (endpoint cfg) \<and> u \<noteq> ''/ping''
      \<longrightarrow> route_of (endpoint cfg) req = Connect
          \<and> requestListener rt cfg reg req = handleConnect rt cfg reg req)
   \<and> (httpMethod req = ''POST'' \<and> url req = Some u \<and> startsWith u ''/messages''
      \<longrightarrow> route_of (endpoint cfg) req = Message
          \<and> requestListener rt cfg reg req = handleMessage rt reg u)"
  by (simp add: route_of_def urlStartsWith_def requestListener_def)

theorem C10_prefix_routing_witness:
  "route_of ''/sse'' (get ''/sse2'' []) = Connect
   \<and> route_of ''/sse'' (get ''/sse/extra'' []) = Connect
   \<and> route_of ''/sse'' (post ''/messages/x?sessionId=a1'') = Message"
proof -
  have e: "endpoint openConfig = ''/sse''" by (simp add: openConfig_def)
  have a: "httpMethod (get ''/sse2'' []) = ''GET'' \<and> url (get ''/sse2'' []) = Some ''/sse2''
           \<and> startsWith ''/sse2'' (endpoint openConfig) \<and> ''/sse2'' \<noteq> ''/ping''"
    by (simp add: get_def startsWith_def e)
  have b: "httpMethod (get ''/sse/extra'' []) = ''GET''
           \<and> url (get ''/sse/extra'' []) = Some ''/sse/extra''
           \<and> startsWith ''/sse/extra'' (endpoint openConfig) \<and> ''/sse/extra'' \<noteq> ''/ping''"
    by (simp add: get_def startsWith_def e)
  have c: "httpMethod (post ''/messages/x?sessionId=a1'') = ''POST''
           \<and> url (post ''/messages/x?sessionId=a1'') = Some ''/messages/x?sessionId=a1''
           \<and> startsWith ''/messages/x?sessionId=a1'' ''/messages''"
    by (simp add: post_def startsWith_def)
  from a C10_prefix_routing [of "get ''/sse2'' []" "''/sse2''" openConfig runtimeA Map.empty]
  have 1: "route_of ''/sse'' (get ''/sse2'' []) = Connect" by (simp add: e)
  from b C10_prefix_routing [of "get ''/sse/extra'' []" "''/sse/extra''" openConfig runtimeA Map.empty]
  have 2: "route_of ''/sse'' (get ''/sse/extra'' []) = Connect" by (simp add: e)
  from c C10_prefix_routing [of "post ''/messages/x?sessionId=a1''" "''/messages/x?sessionId=a1''" openConfig runtimeA Map.empty]
  have 3: "route_of ''/sse'' (post ''/messages/x?sessionId=a1'') = Message" by (simp add: e)
  from 1 2 3 show ?thesis by simp
qed

text \<open>
  The claim as stated fails at the URL \<open>/ping\<close>: with the endpoint \<open>/\<close> it begins
  with the endpoint, and it is answered as the liveness probe, which the listener tests
  first.
\<close>

theorem C10_ping_counterexample:
  "httpMethod (get ''/ping'' []) = ''GET''
   \<and> urlStartsWith (url (get ''/ping'' [])) (endpoint (openConfig\<lparr>endpoint := ''/''\<rparr>))
   \<and> route_of (endpoint (openConfig\<lparr>endpoint := ''/''\<rparr>)) (get ''/ping'' []) = Ping
   \<and> reply (requestListener runtimeA (openConfig\<lparr>endpoint := ''/''\<rparr>) Map.empty (get ''/ping'' []))
       = Reply 200 ''pong''"
  by (simp add: get_def urlStartsWith_def startsWith_def openConfig_def route_of_def
      requestListener_def)

section \<open>Admission\<close>

lemma handleConnect_rejected:
  "admit cfg (requestApiKey rt cfg req) = Rejected st why \<Longrightarrow>
   handleConnect rt cfg reg req =
     \<lparr>reply = Reply st why, activeTransports = reg, actions = [], closeHandler = None\<rparr>"
  by (simp add: handleConnect_def)

text \<open>
  Claim C2. A connect attempt whose credential is missing or empty, or is refused by the
  handler (it returns null), or differs from the configured static key where no handler
  is configured, is answered with status 401 and a non-empty reason; the session table is
  unchanged, no call is made and no close handler is registered. A static key is
  configured when it is a non-empty string, as the listener's test \<open>apiKey &&\<close> has it.
\<close>

theorem C2_rejected_connect_401:
  assumes "route_of (endpoint cfg) req = Connect"
    and "requestApiKey rt cfg req = key"
    and "key = None \<or> key = Some []
         \<or> (\<exists>k h. key = Some k \<and> authHandler cfg = Some h \<and> h k = Returned None)
         \<or> (\<exists>k a. key = Some k \<and> authHandler cfg = None \<and> apiKey cfg = Some a
                \<and> a \<noteq> [] \<and> k \<noteq> a)"
  shows "\<exists>why. why \<noteq> []
           \<and> requestListener rt cfg reg req =
               \<lparr>reply = Reply 401 why, activeTransports = reg, actions = [],
                closeHandler = None\<rparr>"
proof -
  from assms(3) have "\<exists>why. why \<noteq> [] \<and> admit cfg key = Rejected 401 why"
    by (auto simp: admit_def)
  then obtain why where w: "why \<noteq> []" "admit cfg key = Rejected 401 why" by blast
  with assms(1,2) show ?thesis
    by (auto simp: requestListener_connect handleConnect_rejected)
qed

theorem C2_rejected_connect_401_witness:
  "(\<exists>why. why \<noteq> [] \<and>
      requestListener runtimeA (openConfig\<lparr>apiKey := Some ''secret''\<rparr>) [''a1'' \<mapsto> sessionA]
        (get ''/sse'' []) =
      \<lparr>reply = Reply 401 why, activeTransports = [''a1'' \<mapsto> sessionA], actions = [],
       closeHandler = None\<rparr>)
   \<and> (\<exists>why. why \<noteq> [] \<and>
      requestListener runtimeA (openConfig\<lparr>apiKey := Some ''secret''\<rparr>) Map.empty
        (get ''/sse?apiKey=wrong'' []) =
      \<lparr>reply = Reply 401 why, activeTransports = Map.empty, actions = [],
       closeHandler = None\<rparr>)
   \<and> (\<exists>why. why \<noteq> [] \<and>
      requestListener runtimeA (openConfig\<lparr>authHandler := Some (\<lambda>k. Returned None)\<rparr>) Map.empty
        (get ''/sse'' [(''x-api-key'', ''k1'')]) =
      \<lparr>reply = Reply 401 why, activeTransports = Map.empty, actions = [],
       closeHandler = None\<rparr>)"
proof -
  let ?c1 = "openConfig\<lparr>apiKey := Some ''secret''\<rparr>"
  let ?c3 = "openConfig\<lparr>authHandler := Some (\<lambda>k. Returned None)\<rparr>"
  have r1: "route_of (endpoint ?c1) (get ''/sse'' []) = Connect"
    by (simp add: openConfig_def get_def route_of_def urlStartsWith_def startsWith_def)
  have k1: "requestApiKey runtimeA ?c1 (get ''/sse'' []) = None"
    by (simp add: requestApiKey_def openConfig_def get_def)
  have r2: "route_of (endpoint ?c1) (get ''/sse?apiKey=wrong'' []) = Connect"
    by (simp add: openConfig_def get_def route_of_def urlStartsWith_def startsWith_def)
  have k2: "requestApiKey runtimeA ?c1 (get ''/sse?apiKey=wrong'' []) = Some ''wrong''"
    by (simp add: requestApiKey_def openConfig_def get_def runtimeA_def plainSearchParam_def
        queryOf_def)
  have r3: "route_of (endpoint ?c3) (get ''/sse'' [(''x-api-key'', ''k1'')]) = Connect"
    by (simp add: openConfig_def get_def route_of_def urlStartsWith_def startsWith_def)
  have k3: "requestApiKey runtimeA ?c3 (get ''/sse'' [(''x-api-key'', ''k1'')]) = Some ''k1''"
    by (simp add: requestApiKey_def openConfig_def get_def toLowerCase_def lowerChar_def)
  have h2: "Some ''wrong'' = None \<or> Some ''wrong'' = Some []
         \<or> (\<exists>k h. Some ''wrong'' = Some k \<and> authHandler ?c1 = Some h \<and> h k = Returned None)
         \<or> (\<exists>k a. Some ''wrong'' = Some k \<and> authHandler ?c1 = None \<and> apiKey ?c1 = Some a
                \<and> a \<noteq> [] \<and> k \<noteq> a)"
    by (simp add: openConfig_def)
  have h3: "Some ''k1'' = None \<or> Some ''k1'' = Some []
         \<or> (\<exists>k h. Some ''k1'' = Some k \<and> authHandler ?c3 = Some h \<and> h k = Returned None)
         \<or> (\<exists>k a. Some ''k1'' = Some k \<and> authHandler ?c3 = None \<and> apiKey ?c3 = Some a
                \<and> a \<noteq> [] \<and> k \<noteq> a)"
    by (simp add: openConfig_def)
  show ?thesis
    using C2_rejected_connect_401 [OF r1 k1, of "[''a1'' \<mapsto> sessionA]"]
      C2_rejected_connect_401 [OF r2 k2 h2, of Map.empty]
      C2_rejected_connect_401 [OF r3 k3 h3, of Map.empty]
    by simp
qed

section \<open>Session construction\<close>

lemma openConfig_admits_k1:
  "admit (openConfig\<lparr>createServer := f\<rparr>) (requestApiKey rt (openConfig\<lparr>createServer := f\<rparr>)
     (get ''/sse'' keyHeader)) = Admitted ''k1'' None None"
  by (simp add: admit_def requestApiKey_def openConfig_def get_def keyHeader_def
      toLowerCase_def lowerChar_def)

lemma route_sse_openConfig:
  "route_of (endpoint (openConfig\<lparr>createServer := f\<rparr>)) (get ''/sse'' hs) = Connect"
  by (simp add: openConfig_def get_def route_of_def urlStartsWith_def startsWith_def)

text \<open>
  Claim C5, as amended. When the session factory \<open>createServer\<close> fails on an admitted
  connect attempt, the listener answers with status 500 and the text
  \<open>Error creating server\<close>, unless the error thrown is a \<open>Response\<close> object, whose
  own status and status text are then the answer; in both cases the session table is
  unchanged and no close handler is registered, so nothing is left to tear down.
\<close>

theorem C5_createServer_failure:
  assumes "route_of (endpoint cfg) req = Connect"
    and "admit cfg (requestApiKey rt cfg req) = Admitted k uid e"
    and "createServer cfg req uid e = Thrown err"
  shows "requestListener rt cfg reg req =
           \<lparr>reply = (case err of
                       ResponseError st txt \<Rightarrow> Reply st txt
                     | OtherError \<Rightarrow> Reply 500 ''Error creating server''),
            activeTransports = reg, actions = [CreateServer uid e], closeHandler = None\<rparr>"
  using assms
  by (cases err) (simp_all add: requestListener_connect handleConnect_def)

theorem C5_createServer_failure_witness:
  "requestListener runtimeA (openConfig\<lparr>createServer := (\<lambda>r u e. Thrown OtherError)\<rparr>)
     [''b2'' \<mapsto> sessionA] (get ''/sse'' keyHeader) =
   \<lparr>reply = Reply 500 ''Error creating server'', activeTransports = [''b2'' \<mapsto> sessionA],
    actions = [CreateServer None None], closeHandler = None\<rparr>"
proof -
  let ?cfg = "openConfig\<lparr>createServer := (\<lambda>r u e. Thrown OtherError)\<rparr>"
  have c: "createServer ?cfg (get ''/sse'' keyHeader) None None = Thrown OtherError"
    by simp
  show ?thesis
    using C5_createServer_failure [OF route_sse_openConfig openConfig_admits_k1 c]
    by simp
qed

text \<open>
  The claim as stated fails when the factory throws a \<open>Response\<close>: the answer carries
  its status, here 403, not 500.
\<close>

theorem C5_thrown_response_counterexample:
  "admit (openConfig\<lparr>createServer := (\<lambda>r u e. Thrown (ResponseError 403 ''Forbidden''))\<rparr>)
     (requestApiKey runtimeA
        (openConfig\<lparr>createServer := (\<lambda>r u e. Thrown (ResponseError 403 ''Forbidden''))\<rparr>)
        (get ''/sse'' keyHeader)) = Admitted ''k1'' None None
   \<and> reply (requestListener runtimeA
        (openConfig\<lparr>createServer := (\<lambda>r u e. Thrown (ResponseError 403 ''Forbidden''))\<rparr>)
        Map.empty (get ''/sse'' keyHeader)) = Reply 403 ''Forbidden''"
proof -
  define cfg where
    "cfg = openConfig\<lparr>createServer := (\<lambda>r u e. Thrown (ResponseError 403 ''Forbidden''))\<rparr>"
  have a: "admit cfg (requestApiKey runtimeA cfg (get ''/sse'' keyHeader))
             = Admitted ''k1'' None None"
    unfolding cfg_def by (rule openConfig_admits_k1)
  have r: "route_of (endpoint cfg) (get ''/sse'' keyHeader) = Connect"
    unfolding cfg_def by (rule route_sse_openConfig)
  have c: "createServer cfg (get ''/sse'' keyHeader) None None
             = Thrown (ResponseError 403 ''Forbidden'')"
    unfolding cfg_def by simp
  have "reply (handleConnect runtimeA cfg Map.empty (get ''/sse'' keyHeader))
          = Reply 403 ''Forbidden''"
    by (simp add: handleConnect_def a c)
  with r have "reply (requestListener runtimeA cfg Map.empty (get ''/sse'' keyHeader))
          = Reply 403 ''Forbidden''"
    by (simp add: requestListener_connect)
  with a show ?thesis unfolding cfg_def by simp
qed

section \<open>Posted messages\<close>

lemma handleMessage_registry: "activeTransports (handleMessage rt reg u) = reg"
  by (simp add: handleMessage_def split: js_result.splits option.splits property.splits)

lemma handleMessage_unknown:
  assumes "searchParam rt u ''https://example.com'' ''sessionId'' = Returned p"
    and "p = None \<or> p = Some [] \<or> (\<exists>sid. p = Some sid \<and> reg sid = None
           \<and> sid \<notin> set objectPrototypeKeys)"
  shows "\<exists>why. handleMessage rt reg u =
           \<lparr>reply = Reply 400 why, activeTransports = reg, actions = [],
            closeHandler = None\<rparr>"
  using assms by (auto simp: handleMessage_def getProperty_def)

lemma handleMessage_known:
  assumes "searchParam rt u ''https://example.com'' ''sessionId'' = Returned (Some sid)"
    and "sid \<noteq> []" and "reg sid = Some s"
  shows "handleMessage rt reg u =
           \<lparr>reply = NoReply, activeTransports = reg,
            actions = [HandlePostMessage (transport s)], closeHandler = None\<rparr>"
  using assms by (simp add: handleMessage_def getProperty_def)

text \<open>
  Claim C6, at the input where the code departs from it. A POST to
  \<open>/messages?sessionId=constructor\<close> names no session of the (here empty) session
  table, and the claim says the answer is status 400. The lookup
  \<open>activeTransports[sessionId]\<close> finds the member \<open>constructor\<close> that the table
  inherits from \<open>Object.prototype\<close>, the test \<open>!activeSession\<close> lets it pass, and
  reading \<open>handlePostMessage\<close> of its absent \<open>transport\<close> throws: the listener
  writes no answer at all. The session table is unchanged, as on every posted message.
\<close>

theorem C6_inherited_name_not_rejected:
  "route_of (endpoint openConfig) (post ''/messages?sessionId=constructor'') = Message
   \<and> searchParam runtimeA ''/messages?sessionId=constructor'' ''https://example.com''
       ''sessionId'' = Returned (Some ''constructor'')
   \<and> requestListener runtimeA openConfig Map.empty (post ''/messages?sessionId=constructor'')
       = \<lparr>reply = Uncaught, activeTransports = Map.empty, actions = [],
          closeHandler = None\<rparr>"
  by (simp add: openConfig_def post_def route_of_def urlStartsWith_def startsWith_def
      requestListener_def handleMessage_def runtimeA_def plainSearchParam_def queryOf_def
      getProperty_def objectPrototypeKeys_def)

section \<open>Delegate verification\<close>

lemma verifyApiKey_returns: "\<exists>r. verifyApiKey nw k u = Returned r"
  by (simp add: verifyApiKey_def split: js_result.splits)

lemma verifyApiKey_body:
  "u \<noteq> [] \<Longrightarrow> verifyApiKeyBody nw k u = Returned r \<Longrightarrow> verifyApiKey nw k u = Returned r"
  by (simp add: verifyApiKey_def)

lemma getField_Some_not_thrown:
  "getField d n = Returned (Some v) \<Longrightarrow> \<exists>w. getField d m = Returned w"
  by (cases d) simp_all

text \<open>
  Claim C4. \<open>verifyApiKey\<close> never throws: it always returns. It returns null when
  building the URL or the request fails, when the response is not \<open>ok\<close>, when its
  body is not JSON, and when the \<open>valid\<close> member of the body is absent, false or
  otherwise falsy. On an \<open>ok\<close> response whose \<open>valid\<close> member is true (or
  otherwise truthy) it returns exactly this identity: the \<open>userId\<close> of the body, or
  \<open>user-\<close> followed by the first 8 characters of the credential when the body has
  none (or a falsy one); the permissions of the body, or the empty list when it has none;
  the environment of the body, or the empty object when it has none.
\<close>

theorem C4_delegate_verification:
  "(\<exists>r. verifyApiKey nw k u = Returned r)
   \<and> (encodeURIComponent nw k = Thrown err \<longrightarrow> verifyApiKey nw k u = Returned None)
   \<and> (encodeURIComponent nw k = Returned q \<longrightarrow>
        (fetch nw (u @ ''?apiKey='' @ q) = Thrown err \<longrightarrow> verifyApiKey nw k u = Returned None)
      \<and> (fetch nw (u @ ''?apiKey='' @ q) = Returned resp \<longrightarrow>
           (\<not> ok resp \<longrightarrow> verifyApiKey nw k u = Returned None)
         \<and> (ok resp \<and> jsonBody resp = Thrown err \<longrightarrow> verifyApiKey nw k u = Returned None)
         \<and> (ok resp \<and> jsonBody resp = Returned d \<longrightarrow>
              ((getField d ''valid'' = Returned None
                \<or> getField d ''valid'' = Returned (Some (JBool False)))
                 \<longrightarrow> verifyApiKey nw k u = Returned None)
            \<and> (getField d ''valid'' = Returned v \<and> \<not> truthy v
                 \<longrightarrow> verifyApiKey nw k u = Returned None)
            \<and> (u \<noteq> [] \<and> getField d ''valid'' = Returned v \<and> truthy v \<longrightarrow>
                 (\<exists>fu fp fe.
                    getField d ''userId'' = Returned fu
                    \<and> getField d ''permissions'' = Returned fp
                    \<and> getField d ''env'' = Returned fe
                    \<and> verifyApiKey nw k u = Returned (Some
                        \<lparr>userId =
                           (case fu of
                              None \<Rightarrow> JStr (''user-'' @ take 8 k)
                            | Some x \<Rightarrow>
                                if truthy (Some x) then x else JStr (''user-'' @ take 8 k)),
                         permissions = Some
                           (case fp of
                              None \<Rightarrow> JArr []
                            | Some x \<Rightarrow> if truthy (Some x) then x else JArr []),
                         env = Some
                           (case fe of
                              None \<Rightarrow> JObj []
                            | Some x \<Rightarrow> if truthy (Some x) then x else JObj [])\<rparr>))))))"
proof -
  have 1: "\<exists>r. verifyApiKey nw k u = Returned r"
    by (rule verifyApiKey_returns)
  have 2: "encodeURIComponent nw k = Thrown err \<Longrightarrow> verifyApiKey nw k u = Returned None"
    by (simp add: verifyApiKey_def verifyApiKeyBody_def)
  have 3: "verifyApiKey nw k u = Returned None"
    if "encodeURIComponent nw k = Returned q" "fetch nw (u @ ''?apiKey='' @ q) = Thrown err"
    using that by (simp add: verifyApiKey_def verifyApiKeyBody_def)
  have 4: "verifyApiKey nw k u = Returned None"
    if "encodeURIComponent nw k = Returned q" "fetch nw (u @ ''?apiKey='' @ q) = Returned resp"
      "\<not> ok resp"
    using that by (simp add: verifyApiKey_def verifyApiKeyBody_def)
  have 5: "verifyApiKey nw k u = Returned None"
    if "encodeURIComponent nw k = Returned q" "fetch nw (u @ ''?apiKey='' @ q) = Returned resp"
      "ok resp" "jsonBody resp = Thrown err"
    using that by (simp add: verifyApiKey_def verifyApiKeyBody_def)
  have 6: "verifyApiKey nw k u = Returned None"
    if "encodeURIComponent nw k = Returned q" "fetch nw (u @ ''?apiKey='' @ q) = Returned resp"
      "ok resp" "jsonBody resp = Returned d"
      "getField d ''valid'' = Returned w" "\<not> truthy w" for w
    using that by (simp add: verifyApiKey_def verifyApiKeyBody_def)
  have 7: "\<exists>fu fp fe.
                    getField d ''userId'' = Returned fu
                    \<and> getField d ''permissions'' = Returned fp
                    \<and> getField d ''env'' = Returned fe
                    \<and> verifyApiKey nw k u = Returned (Some
                        \<lparr>userId =
                           (case fu of
                              None \<Rightarrow> JStr (''user-'' @ take 8 k)
                            | Some x \<Rightarrow>
                                if truthy (Some x) then x else JStr (''user-'' @ take 8 k)),
                         permissions = Some
                           (case fp of
                              None \<Rightarrow> JArr []
                            | Some x \<Rightarrow> if truthy (Some x) then x else JArr []),
                         env = Some
                           (case fe of
                              None \<Rightarrow> JObj []
                            | Some x \<Rightarrow> if truthy (Some x) then x else JObj [])\<rparr>)"
    if a: "encodeURIComponent nw k = Returned q"
      "fetch nw (u @ ''?apiKey='' @ q) = Returned resp"
      "ok resp" "jsonBody resp = Returned d" "u \<noteq> []"
      and v: "getField d ''valid'' = Returned v" "truthy v"
  proof -
    from v(2) obtain x where x: "v = Some x" by (cases v) simp_all
    obtain fu where fu: "getField d ''userId'' = Returned fu"
      using getField_Some_not_thrown v(1) x by blast
    obtain fp where fp: "getField d ''permissions'' = Returned fp"
      using getField_Some_not_thrown v(1) x by blast
    obtain fe where fe: "getField d ''env'' = Returned fe"
      using getField_Some_not_thrown v(1) x by blast
    have "verifyApiKeyBody nw k u = Returned (Some
            \<lparr>userId = orElse fu (derivedUserId k),
             permissions = Some (orElse fp (JArr [])),
             env = Some (orElse fe (JObj []))\<rparr>)"
      using a v fu fp fe by (simp add: verifyApiKeyBody_def)
    then have "verifyApiKey nw k u = Returned (Some
            \<lparr>userId = orElse fu (derivedUserId k),
             permissions = Some (orElse fp (JArr [])),
             env = Some (orElse fe (JObj []))\<rparr>)"
      using a(5) by (rule verifyApiKey_body [rotated])
    then show ?thesis
      using fu fp fe by (simp add: orElse_def derivedUserId_def split: option.splits)
  qed
  have fa: "verifyApiKey nw k u = Returned None"
    if "encodeURIComponent nw k = Returned q" "fetch nw (u @ ''?apiKey='' @ q) = Returned resp"
      "ok resp" "jsonBody resp = Returned d"
      "getField d ''valid'' = Returned None \<or> getField d ''valid'' = Returned (Some (JBool False))"
    using that 6 [of None] 6 [of "Some (JBool False)"] by auto
  from 1 2 3 4 5 6 [of v] fa 7 show ?thesis by blast
qed

lemma authNet_encode: "encodeURIComponent authNet k = Returned k"
  by (simp add: authNet_def)

theorem C4_delegate_verification_witness:
  "verifyApiKey authNet ''abcdefghijkl'' authUrl = Returned (Some
      \<lparr>userId = JStr ''user-abcdefgh'', permissions = Some (JArr []), env = Some (JObj [])\<rparr>)
   \<and> verifyApiKey authNet ''k1'' authUrl = Returned (Some
      \<lparr>userId = JStr ''u1'', permissions = Some (JArr [JStr ''read'']),
       env = Some (JObj [(''T'', JStr ''v1'')])\<rparr>)
   \<and> verifyApiKey authNet ''down'' authUrl = Returned None
   \<and> verifyApiKey authNet ''bad'' authUrl = Returned None
   \<and> verifyApiKey authNet ''null'' authUrl = Returned None
   \<and> verifyApiKey authNet ''none'' authUrl = Returned None
   \<and> verifyApiKey authNet ''html'' authUrl = Returned None
   \<and> verifyApiKey authNet ''unreachable'' authUrl = Returned None"
proof -
  have u: "authUrl \<noteq> []" by (simp add: authUrl_def)
  have f1: "fetch authNet (authUrl @ ''?apiKey='' @ ''abcdefghijkl'')
              = okJson (JObj [(''valid'', JBool True)])"
    by (simp add: authNet_def authUrl_def authFetch_def)
  have f2: "fetch authNet (authUrl @ ''?apiKey='' @ ''k1'')
              = okJson (JObj [(''valid'', JBool True), (''userId'', JStr ''u1''),
                      (''permissions'', JArr [JStr ''read'']),
                      (''env'', JObj [(''T'', JStr ''v1'')])])"
    by (simp add: authNet_def authUrl_def authFetch_def)
  have f3: "fetch authNet (authUrl @ ''?apiKey='' @ ''down'')
              = Returned \<lparr>ok = False, status = 503, jsonBody = Thrown OtherError\<rparr>"
    by (simp add: authNet_def authUrl_def authFetch_def)
  have f4: "fetch authNet (authUrl @ ''?apiKey='' @ ''bad'')
              = okJson (JObj [(''valid'', JBool False)])"
    by (simp add: authNet_def authUrl_def authFetch_def)
  have f5: "fetch authNet (authUrl @ ''?apiKey='' @ ''none'') = okJson (JObj [])"
    by (simp add: authNet_def authUrl_def authFetch_def)
  have f6: "fetch authNet (authUrl @ ''?apiKey='' @ ''html'')
              = Returned \<lparr>ok = True, status = 200, jsonBody = Thrown OtherError\<rparr>"
    by (simp add: authNet_def authUrl_def authFetch_def)
  have f7: "fetch authNet (authUrl @ ''?apiKey='' @ ''unreachable'') = Thrown OtherError"
    by (simp add: authNet_def authUrl_def authFetch_def)
  have f8: "fetch authNet (authUrl @ ''?apiKey='' @ ''null'')
              = okJson (JObj [(''valid'', JNull)])"
    by (simp add: authNet_def authUrl_def authFetch_def)
  have 1: "verifyApiKey authNet ''abcdefghijkl'' authUrl = Returned (Some
      \<lparr>userId = JStr ''user-abcdefgh'', permissions = Some (JArr []), env = Some (JObj [])\<rparr>)"
    using C4_delegate_verification [of authNet "''abcdefghijkl''" authUrl OtherError
        "''abcdefghijkl''" "\<lparr>ok = True, status = 200, jsonBody = Returned (JObj [(''valid'', JBool True)])\<rparr>"
        "JObj [(''valid'', JBool True)]" "Some (JBool True)"] u f1
    by (simp add: authNet_encode okJson_def)
  have 2: "verifyApiKey authNet ''k1'' authUrl = Returned (Some
      \<lparr>userId = JStr ''u1'', permissions = Some (JArr [JStr ''read'']),
       env = Some (JObj [(''T'', JStr ''v1'')])\<rparr>)"
    using C4_delegate_verification [of authNet "''k1''" authUrl OtherError "''k1''"
        "\<lparr>ok = True, status = 200, jsonBody = Returned (JObj [(''valid'', JBool True),
           (''userId'', JStr ''u1''), (''permissions'', JArr [JStr ''read'']),
           (''env'', JObj [(''T'', JStr ''v1'')])])\<rparr>"
        "JObj [(''valid'', JBool True), (''userId'', JStr ''u1''),
               (''permissions'', JArr [JStr ''read'']),
               (''env'', JObj [(''T'', JStr ''v1'')])]" "Some (JBool True)"] u f2
    by (simp add: authNet_encode okJson_def)
  have 3: "verifyApiKey authNet ''down'' authUrl = Returned None"
    using C4_delegate_verification [of authNet "''down''" authUrl OtherError "''down''"
        "\<lparr>ok = False, status = 503, jsonBody = Thrown OtherError\<rparr>" JNull None] f3
    by (simp add: authNet_encode)
  have 4: "verifyApiKey authNet ''bad'' authUrl = Returned None"
    using C4_delegate_verification [of authNet "''bad''" authUrl OtherError "''bad''"
        "\<lparr>ok = True, status = 200, jsonBody = Returned (JObj [(''valid'', JBool False)])\<rparr>"
        "JObj [(''valid'', JBool False)]" None] f4
    by (simp add: authNet_encode okJson_def)
  have 5: "verifyApiKey authNet ''none'' authUrl = Returned None"
    using C4_delegate_verification [of authNet "''none''" authUrl OtherError "''none''"
        "\<lparr>ok = True, status = 200, jsonBody = Returned (JObj [])\<rparr>" "JObj []" None] f5
    by (simp add: authNet_encode okJson_def)
  have 6: "verifyApiKey authNet ''html'' authUrl = Returned None"
    using C4_delegate_verification [of authNet "''html''" authUrl OtherError "''html''"
        "\<lparr>ok = True, status = 200, jsonBody = Thrown OtherError\<rparr>" JNull None] f6
    by (simp add: authNet_encode)
  have 7: "verifyApiKey authNet ''unreachable'' authUrl = Returned None"
    using C4_delegate_verification [of authNet "''unreachable''" authUrl OtherError
        "''unreachable''" "\<lparr>ok = True, status = 200, jsonBody = Thrown OtherError\<rparr>" JNull None] f7
    by (simp add: authNet_encode)
  have 8: "verifyApiKey authNet ''null'' authUrl = Returned None"
    using C4_delegate_verification [of authNet "''null''" authUrl OtherError "''null''"
        "\<lparr>ok = True, status = 200, jsonBody = Returned (JObj [(''valid'', JNull)])\<rparr>"
        "JObj [(''valid'', JNull)]" "Some JNull"] f8
    by (simp add: authNet_encode okJson_def)
  from 1 2 3 4 5 6 7 8 show ?thesis by simp
qed

section \<open>The order of admission\<close>

lemma admit_handler:
  "k \<noteq> [] \<Longrightarrow> authHandler cfg = Some h \<Longrightarrow>
   admit cfg (Some k) =
     (case h k of
        Thrown e \<Rightarrow> AuthThrew
      | Returned None \<Rightarrow> Rejected 401 ''Unauthorized: Invalid API key''
      | Returned (Some r) \<Rightarrow> Admitted k (Some (userId r)) (env r))"
  by (simp add: admit_def)

lemma cliAuthHandler_local:
  "k \<noteq> [] \<Longrightarrow> \<not> remoteVerification au \<Longrightarrow>
   cliAuthHandler nw au k =
     Returned (Some \<lparr>userId = JStr (''user-'' @ take 8 k), permissions = None, env = None\<rparr>)"
  by (simp add: cliAuthHandler_def derivedUserId_def)

text \<open>
  Claim C3, as amended. For a non-empty credential, admission in \<open>startSSEServer\<close>
  has three tiers. When an auth handler is configured it alone decides: the credential is
  admitted exactly when the handler returns an identity, whose \<open>userId\<close> and \<open>env\<close>
  the session takes, and the configured static key plays no part. Otherwise, when a
  non-empty static key is configured, the credential is admitted exactly when it equals
  the key, with no \<open>userId\<close> and no \<open>env\<close>. Otherwise every non-empty credential
  is admitted, again with no \<open>userId\<close> and no \<open>env\<close>. The \<open>userId\<close> made of
  \<open>user-\<close> and the first 8 characters of the credential comes from the handler that
  the command-line program configures, when no verification URL is set.
\<close>

theorem C3_admission_precedence:
  "(k \<noteq> [] \<and> authHandler cfg = Some h \<longrightarrow>
      admit cfg (Some k) =
        (case h k of
           Thrown e \<Rightarrow> AuthThrew
         | Returned None \<Rightarrow> Rejected 401 ''Unauthorized: Invalid API key''
         | Returned (Some r) \<Rightarrow> Admitted k (Some (userId r)) (env r))
      \<and> admit (cfg\<lparr>apiKey := a'\<rparr>) (Some k) = admit cfg (Some k))
   \<and> (k \<noteq> [] \<and> authHandler cfg = None \<and> apiKey cfg = Some a \<and> a \<noteq> [] \<longrightarrow>
      admit cfg (Some k) =
        (if k = a then Admitted k None None
         else Rejected 401 ''Unauthorized: Invalid API key''))
   \<and> (k \<noteq> [] \<and> authHandler cfg = None \<and> (apiKey cfg = None \<or> apiKey cfg = Some []) \<longrightarrow>
      admit cfg (Some k) = Admitted k None None)
   \<and> (k \<noteq> [] \<and> \<not> remoteVerification au \<and> authHandler cfg = Some (cliAuthHandler nw au) \<longrightarrow>
      admit cfg (Some k) = Admitted k (Some (JStr (''user-'' @ take 8 k))) None)"
proof -
  have 1: "admit (cfg\<lparr>apiKey := a'\<rparr>) (Some k) = admit cfg (Some k)"
    if "k \<noteq> []" "authHandler cfg = Some h"
    using that by (simp add: admit_def)
  have 2: "admit cfg (Some k) =
        (if k = a then Admitted k None None
         else Rejected 401 ''Unauthorized: Invalid API key'')"
    if "k \<noteq> []" "authHandler cfg = None" "apiKey cfg = Some a" "a \<noteq> []"
    using that by (simp add: admit_def)
  have 3: "admit cfg (Some k) = Admitted k None None"
    if "k \<noteq> []" "authHandler cfg = None" "apiKey cfg = None \<or> apiKey cfg = Some []"
    using that by (auto simp: admit_def)
  have 4: "admit cfg (Some k) = Admitted k (Some (JStr (''user-'' @ take 8 k))) None"
    if "k \<noteq> []" "\<not> remoteVerification au" "authHandler cfg = Some (cliAuthHandler nw au)"
    using that by (simp add: admit_handler cliAuthHandler_local)
  from 1 2 3 4 admit_handler [of k cfg h] show ?thesis by blast
qed

theorem C3_admission_precedence_witness:
  "admit (openConfig\<lparr>authHandler := Some (\<lambda>k. Returned None), apiKey := Some ''k1''\<rparr>)
       (Some ''k1'') = Rejected 401 ''Unauthorized: Invalid API key''
   \<and> admit (openConfig\<lparr>apiKey := Some ''secret''\<rparr>) (Some ''secret'') = Admitted ''secret'' None None
   \<and> admit (openConfig\<lparr>apiKey := Some ''secret''\<rparr>) (Some ''wrong'')
       = Rejected 401 ''Unauthorized: Invalid API key''
   \<and> admit openConfig (Some ''anything'') = Admitted ''anything'' None None
   \<and> admit (openConfig\<lparr>authHandler := Some (cliAuthHandler authNet None)\<rparr>) (Some ''anything'')
       = Admitted ''anything'' (Some (JStr ''user-anything'')) None"
proof -
  let ?c1 = "openConfig\<lparr>authHandler := Some (\<lambda>k. Returned None), apiKey := Some ''k1''\<rparr>"
  let ?c2 = "openConfig\<lparr>apiKey := Some ''secret''\<rparr>"
  let ?c4 = "openConfig\<lparr>authHandler := Some (cliAuthHandler authNet None)\<rparr>"
  have h1: "authHandler ?c1 = Some (\<lambda>k. Returned None)" by simp
  have h2: "authHandler ?c2 = None" "apiKey ?c2 = Some ''secret''"
    by (simp_all add: openConfig_def)
  have h3: "authHandler openConfig = None" "apiKey openConfig = None"
    by (simp_all add: openConfig_def)
  have h4: "\<not> remoteVerification None" "authHandler ?c4 = Some (cliAuthHandler authNet None)"
    by (simp_all add: remoteVerification_def)
  have 1: "admit ?c1 (Some ''k1'') = Rejected 401 ''Unauthorized: Invalid API key''"
    using C3_admission_precedence [of "''k1''" ?c1 "\<lambda>k. Returned None" None "''x''" None authNet] h1
    by simp
  have 2: "admit ?c2 (Some ''secret'') = Admitted ''secret'' None None"
    using C3_admission_precedence [of "''secret''" ?c2 "\<lambda>k. Returned None" None "''secret''" None authNet] h2
    by simp
  have 3: "admit ?c2 (Some ''wrong'') = Rejected 401 ''Unauthorized: Invalid API key''"
    using C3_admission_precedence [of "''wrong''" ?c2 "\<lambda>k. Returned None" None "''secret''" None authNet] h2
    by simp
  have 4: "admit openConfig (Some ''anything'') = Admitted ''anything'' None None"
    using C3_admission_precedence [of "''anything''" openConfig "\<lambda>k. Returned None" None "''x''" None authNet] h3
    by simp
  have 5: "admit ?c4 (Some ''anything'') = Admitted ''anything'' (Some (JStr ''user-anything'')) None"
  proof -
    have ne: "''anything'' \<noteq> []" by simp
    have tk: "''user-'' @ take 8 ''anything'' = ''user-anything''" by simp
    from C3_admission_precedence [of "''anything''" ?c4 "cliAuthHandler authNet None" None "''x''" None authNet] h4 ne
    have "admit ?c4 (Some ''anything'')
            = Admitted ''anything'' (Some (JStr (''user-'' @ take 8 ''anything''))) None"
      by blast
    then show ?thesis unfolding tk .
  qed
  from 1 2 3 4 5 show ?thesis by blast
qed

text \<open>
  The claim as stated fails in the third tier: with neither a handler nor a static key,
  the credential \<open>anything\<close> is admitted and the session factory is called with no
  \<open>userId\<close>, not with \<open>user-anything\<close>.
\<close>

theorem C3_no_derived_userId_counterexample:
  "authHandler openConfig = None \<and> apiKey openConfig = None
   \<and> admit openConfig (requestApiKey runtimeA openConfig (get ''/sse'' [(''x-api-key'', ''anything'')]))
       = Admitted ''anything'' None None
   \<and> actions (requestListener runtimeA openConfig Map.empty
        (get ''/sse'' [(''x-api-key'', ''anything'')]))
       = [CreateServer None None, ServerConnect goodServer transportA,
          TransportSend transportA connectionNotification]"
proof -
  have k: "requestApiKey runtimeA openConfig (get ''/sse'' [(''x-api-key'', ''anything'')])
             = Some ''anything''"
    by (simp add: requestApiKey_def openConfig_def get_def toLowerCase_def lowerChar_def)
  have a: "admit openConfig (Some ''anything'') = Admitted ''anything'' None None"
    by (simp add: admit_def openConfig_def)
  have r: "route_of (endpoint openConfig) (get ''/sse'' [(''x-api-key'', ''anything'')]) = Connect"
    by (simp add: openConfig_def get_def route_of_def urlStartsWith_def startsWith_def)
  have c: "createServer openConfig (get ''/sse'' [(''x-api-key'', ''anything'')]) None None
             = Returned goodServer" "onConnect openConfig = None"
    by (simp_all add: openConfig_def)
  have at: "attach openConfig goodServer transportA None =
      (Attached, [ServerConnect goodServer transportA,
              TransportSend transportA connectionNotification])"
    by (simp add: attach_def goodServer_def transportA_def c)
  have t: "newTransport runtimeA = transportA"
    by (simp add: runtimeA_def)
  have "actions (handleConnect runtimeA openConfig Map.empty
        (get ''/sse'' [(''x-api-key'', ''anything'')]))
       = [CreateServer None None, ServerConnect goodServer transportA,
          TransportSend transportA connectionNotification]"
    by (simp add: handleConnect_def k a c t at)
  with r k a show ?thesis
    by (simp add: requestListener_connect openConfig_def)
qed

section \<open>The environment of a session\<close>

lemma cliCreateServer_worker: "workerEnv (cliCreateServer p u e) = workerEnv p"
  by (simp add: cliCreateServer_def)

lemma foldl_createServer_worker:
  "workerEnv (foldl (\<lambda>q e. cliCreateServer q None e) p es) = workerEnv p"
  by (induction es arbitrary: p) (simp_all add: cliCreateServer_worker)

lemma proxy_worker: "workerEnv (proxy p es) = Some (processEnv p)"
  by (simp add: proxy_def foldl_createServer_worker cliConnect_def)

lemma foldl_setEntry_other:
  "key \<notin> fst ` set kvs \<Longrightarrow> foldl setEntry pe kvs key = pe key"
  by (induction kvs arbitrary: pe) (auto simp: setEntry_def)

lemma foldl_setEntry_written:
  "distinct (map fst kvs) \<Longrightarrow> (key, v) \<in> set kvs \<Longrightarrow> v \<noteq> JNull \<Longrightarrow> envName key \<Longrightarrow>
   foldl setEntry pe kvs key = Some (toString v)"
proof (induction kvs arbitrary: pe)
  case Nil
  then show ?case by simp
next
  case (Cons kv kvs)
  show ?case
  proof (cases "kv = (key, v)")
    case True
    with Cons.prems have "key \<notin> fst ` set kvs" by auto
    then have "foldl setEntry (setEntry pe kv) kvs key = setEntry pe kv key"
      by (rule foldl_setEntry_other)
    moreover have "setEntry pe kv key = Some (toString v)"
      using True Cons.prems(3,4) by (simp add: setEntry_def)
    ultimately show ?thesis by simp
  next
    case False
    with Cons.prems have "(key, v) \<in> set kvs" "distinct (map fst kvs)" by auto
    with Cons.IH Cons.prems(3,4) show ?thesis by simp
  qed
qed

lemma members_distinct: "distinct (map fst (members kvs))"
  by (simp add: members_def comp_def)

lemma members_read:
  assumes "map_of (rev kvs) key = Some v"
  shows "(key, v) \<in> set (members kvs)"
proof -
  from assms have "(key, v) \<in> set (rev kvs)"
    by (rule map_of_SomeD)
  then have "key \<in> fst ` set (rev kvs)"
    by force
  then have "key \<in> set (remdups (map fst kvs))" by simp
  with assms show ?thesis
    by (force simp: members_def)
qed

lemma createServer_writes_env:
  "map_of (rev kvs) key = Some v \<Longrightarrow> v \<noteq> JNull \<Longrightarrow> envName key \<Longrightarrow>
   processEnv (cliCreateServer p u (Some (JObj kvs))) key = Some (toString v)"
  by (simp add: cliCreateServer_def applyEnv_def foldl_setEntry_written members_distinct
      members_read)

text \<open>
  Claim C9, at the input where the code departs from it. The program connects the
  upstream worker, then a session is created with the environment \<open>{"T": "v1"}\<close>.
  The session factory writes the entry into \<open>process.env\<close>, as the claim says (and as
  \<open>createServer_writes_env\<close> shows for every non-null entry of a mapping under a name
  that the environment takes). The worker does not see it: it was started before any
  session, with the environment of that moment (\<open>proxy_worker\<close>), and still sees only
  what was there then.
\<close>

theorem C9_env_not_seen_by_worker:
  "processEnv (proxy freshProcess [Some (JObj [(''T'', JStr ''v1'')])]) ''T'' = Some ''v1''
   \<and> workerSees (proxy freshProcess [Some (JObj [(''T'', JStr ''v1'')])]) ''T'' = None
   \<and> workerSees (proxy freshProcess [Some (JObj [(''T'', JStr ''v1'')])]) ''PATH''
       = Some ''/usr/bin''"
  by (simp add: workerSees_def proxy_worker freshProcess_def)
     (simp add: proxy_def cliCreateServer_def cliConnect_def applyEnv_def setEntry_def
        members_def envName_def)

section \<open>Teardown\<close>






section \<open>No cross-talk between sessions\<close>

lemma handed_attach: "handed (snd (attach cfg server t uid)) = []"
  by (simp add: attach_def split: option.splits)

lemma sent_attach:
  "p \<in> set (sent (snd (attach cfg server t uid))) \<Longrightarrow> p = (t, connectionNotification)"
  by (auto simp: attach_def split: option.splits if_splits)

lemma handleConnect_handed: "handed (actions (handleConnect rt cfg reg req)) = []"
  by (simp add: handleConnect_def Let_def handed_attach
      split: admission.splits js_result.splits js_error.splits)

lemma handleConnect_sent:
  "p \<in> set (sent (actions (handleConnect rt cfg reg req))) \<Longrightarrow>
   p = (newTransport rt, connectionNotification)"
  by (auto simp: handleConnect_def Let_def
      split: admission.splits js_result.splits js_error.splits dest: sent_attach)

lemma handleMessage_sent: "sent (actions (handleMessage rt reg u :: 'a outcome)) = []"
  by (simp add: handleMessage_def getProperty_def
      split: js_result.splits option.splits)

lemma handleConnect_keyed: "keyed reg \<Longrightarrow> keyed (activeTransports (handleConnect rt cfg reg req))"
  by (simp add: handleConnect_def Let_def keyed_def
      split: admission.splits js_result.splits js_error.splits)


lemma handleMessage_handed:
  assumes "t \<in> set (handed (actions (handleMessage rt reg u :: 'a outcome)))"
  shows "\<exists>sid s. searchParam rt u ''https://example.com'' ''sessionId'' = Returned (Some sid)
           \<and> reg sid = Some s \<and> transport s = t"
  using assms
  by (auto simp: handleMessage_def getProperty_def
      split: js_result.splits option.splits if_splits)

lemma requestListener_keyed:
  "keyed reg \<Longrightarrow> keyed (activeTransports (requestListener rt cfg reg req))"
  by (simp add: requestListener_def handleConnect_keyed handleMessage_registry
      split: route.splits option.splits)


lemma requestListener_sent:
  assumes "p \<in> set (sent (actions (requestListener rt cfg reg req)))"
  shows "route_of (endpoint cfg) req = Connect \<and> p = (newTransport rt, connectionNotification)"
proof (cases "route_of (endpoint cfg) req")
  case Connect
  with assms handleConnect_sent [of p rt cfg reg req] show ?thesis
    by (simp add: requestListener_def)
qed (use assms in \<open>simp_all add: requestListener_def handleMessage_sent split: option.splits\<close>)

lemma requestListener_handed:
  assumes "t \<in> set (handed (actions (requestListener rt cfg reg req)))"
  shows "\<exists>s. reg (addressed rt req) = Some s \<and> transport s = t"
proof (cases "route_of (endpoint cfg) req")
  case Message
  show ?thesis
  proof (cases "url req")
    case None
    with Message assms show ?thesis by (simp add: requestListener_def)
  next
    case (Some u)
    with Message assms
    have "t \<in> set (handed (actions (handleMessage rt reg u :: 'a ServerLike_scheme outcome)))"
      by (simp add: requestListener_def)
    from handleMessage_handed [OF this] Some show ?thesis
      by (auto simp: addressed_def)
  qed
next
  case Connect
  with assms show ?thesis by (simp add: requestListener_def handleConnect_handed)
qed (use assms in \<open>simp_all add: requestListener_def split: option.splits\<close>)

lemma onResClose_keyed: "keyed reg \<Longrightarrow> keyed (activeTransports (onResClose cfg reg h))"
  by (cases h) (simp add: onResClose_def keyed_def)


lemma observed_step: "observed (step cfg st ev) = observed st @ emits cfg st ev"
  by (cases ev) (simp_all add: step_def Let_def)

lemma emits_request:
  assumes "ob \<in> set (emits cfg st (Request rt req rid))"
  shows "(route_of (endpoint cfg) req = Connect
            \<and> ob = Announced (newTransport rt) connectionNotification)
       \<or> (\<exists>s. ob = Handed (addressed rt req) (transport s) rid
              \<and> sessions st (addressed rt req) = Some s)"
  using assms requestListener_sent [of _ rt cfg "sessions st" req]
    requestListener_handed [of _ rt cfg "sessions st" req]
  by (fastforce simp: emits_def Let_def)

lemma sound_initial: "sound initial"
  by (simp add: sound_def initial_def keyed_def)

lemma in_remove1: "x \<in> set (remove1 y xs) \<Longrightarrow> x \<in> set xs"
  using set_remove1_subset [of y xs] by blast

lemma sound_response:
  assumes "sound st"
  shows "sound (step cfg st (UpstreamResponse sid rid))"
proof -
  let ?st = "step cfg st (UpstreamResponse sid rid)"
  have obs: "set (observed ?st) = set (observed st) \<union> {dispatch st sid rid}"
    by (simp add: observed_step emits_def)
  have out: "set (outstanding ?st) \<subseteq> set (outstanding st)"
    by (auto simp: step_def dest: in_remove1)
  have ses: "sessions ?st = sessions st"
    by (simp add: step_def)
  have d: "sessionId t = A \<and> A = sid \<and> i = rid \<and> (sid, rid) \<in> set (outstanding st)"
    if "dispatch st sid rid = Delivered t A i" for t A i
    using that assms
    by (auto simp: dispatch_def sound_def keyed_def split: if_splits option.splits)
  have h: "Handed S t i \<noteq> dispatch st sid rid" for S t i
    by (simp add: dispatch_def split: option.splits)
  have 1: "keyed (sessions ?st)"
    unfolding ses using assms by (simp add: sound_def)
  have 2: "sessionId t = S" if "Handed S t i \<in> set (observed ?st)" for S t i
  proof -
    from that h have "Handed S t i \<in> set (observed st)" unfolding obs by simp
    with assms show ?thesis unfolding sound_def by blast
  qed
  have 3: "sessionId t = A \<and> (\<exists>t'. Handed A t' i \<in> set (observed ?st))"
    if "Delivered t A i \<in> set (observed ?st)" for t A i
  proof (cases "Delivered t A i \<in> set (observed st)")
    case True
    with assms show ?thesis unfolding obs sound_def by blast
  next
    case False
    with that have "dispatch st sid rid = Delivered t A i" unfolding obs by auto
    from d [OF this] assms show ?thesis unfolding obs sound_def by blast
  qed
  have 4: "\<exists>t'. Handed A t' i \<in> set (observed ?st)"
    if "(A, i) \<in> set (outstanding ?st)" for A i
    using that out assms unfolding obs sound_def by blast
  from 1 2 3 4 show ?thesis unfolding sound_def by blast
qed

lemma sound_request:
  assumes "sound st"
  shows "sound (step cfg st (Request rt req rid))"
proof -
  let ?r = "requestListener rt cfg (sessions st) req"
  let ?st = "step cfg st (Request rt req rid)"
  have k: "keyed (sessions st)" using assms by (simp add: sound_def)
  have h: "sessionId t = addressed rt req" if "t \<in> set (handed (actions ?r))" for t
    using requestListener_handed [OF that] k by (auto simp: keyed_def)
  have obs: "set (observed ?st) = set (observed st) \<union> set (emits cfg st (Request rt req rid))"
    by (simp add: observed_step)
  have em: "Handed S t i \<in> set (emits cfg st (Request rt req rid)) \<longleftrightarrow>
      S = addressed rt req \<and> i = rid \<and> t \<in> set (handed (actions ?r))" for S t i
    by (auto simp: emits_def Let_def)
  have nd: "Delivered t A i \<notin> set (emits cfg st (Request rt req rid))" for t A i
    by (auto simp: emits_def Let_def)
  have out: "set (outstanding ?st) =
      set (outstanding st) \<union> (\<lambda>t. (sessionId t, rid)) ` set (handed (actions ?r))"
    by (simp add: step_def Let_def)
  have ses: "sessions ?st = activeTransports ?r"
    by (simp add: step_def Let_def)
  have 1: "keyed (sessions ?st)"
    unfolding ses using k by (rule requestListener_keyed)
  have 2: "sessionId t = S" if "Handed S t i \<in> set (observed ?st)" for S t i
    using that assms h unfolding obs sound_def by (auto simp: em)
  have 3: "sessionId t = A \<and> (\<exists>t'. Handed A t' i \<in> set (observed ?st))"
    if "Delivered t A i \<in> set (observed ?st)" for t A i
    using that assms nd unfolding obs sound_def by blast
  have 4: "\<exists>t'. Handed A t' i \<in> set (observed ?st)"
    if "(A, i) \<in> set (outstanding ?st)" for A i
  proof (cases "(A, i) \<in> set (outstanding st)")
    case True
    with assms show ?thesis unfolding obs sound_def by blast
  next
    case False
    with that obtain t where t: "t \<in> set (handed (actions ?r))" "A = sessionId t" "i = rid"
      unfolding out by auto
    with h [OF t(1)] have "Handed A t i \<in> set (observed ?st)"
      unfolding obs by (simp add: em)
    then show ?thesis by blast
  qed
  from 1 2 3 4 show ?thesis unfolding sound_def by blast
qed

lemma sound_close:
  assumes "sound st"
  shows "sound (step cfg st (ResClose h))"
proof -
  have "keyed (sessions st)" using assms by (simp add: sound_def)
  then have "keyed (activeTransports (onResClose cfg (sessions st) h))"
    by (rule onResClose_keyed)
  with assms show ?thesis
    unfolding sound_def step_def by (auto simp: emits_def)
qed

lemma sound_step: "sound st \<Longrightarrow> sound (step cfg st ev)"
  by (cases ev) (simp_all add: sound_request sound_close sound_response)

lemma sound_run: "sound st \<Longrightarrow> sound (run cfg st evs)"
  unfolding run_def by (induction evs arbitrary: st) (simp_all add: sound_step)

text \<open>
  Claim C1. In every state that the listener with the bridge reaches from the empty
  state, over any sequence of events: a posted message addressed to the session
  identifier \<open>S\<close> is handed only to the transport registered under \<open>S\<close>, whose
  session is \<open>S\<close>; an upstream response correlated with the request \<open>i\<close> of session
  \<open>A\<close> makes exactly one observation, which is its delivery down the push-channel of
  the transport registered under \<open>A\<close>, whose session is \<open>A\<close>, when the request is
  pending and \<open>A\<close> is registered, and is its drop otherwise, so that it reaches no
  other session; and whatever was observed on the way obeys the same. The identifier
  itself is unconstrained: two sessions may use the same one.
\<close>

theorem C1_no_cross_talk:
  "(\<forall>S t j. Handed S t j \<in> set (emits cfg (run cfg initial evs) (Request rt req rid)) \<longrightarrow>
       S = addressed rt req \<and> j = rid \<and> sessionId t = S
       \<and> (\<exists>s. sessions (run cfg initial evs) S = Some s \<and> transport s = t))
   \<and> (\<forall>t B j. Delivered t B j \<notin> set (emits cfg (run cfg initial evs) (Request rt req rid)))
   \<and> (\<exists>ob. emits cfg (run cfg initial evs) (UpstreamResponse A i) = [ob]
         \<and> (if (A, i) \<in> set (outstanding (run cfg initial evs))
                \<and> sessions (run cfg initial evs) A \<noteq> None
             then \<exists>s. ob = Delivered (transport s) A i
                    \<and> sessions (run cfg initial evs) A = Some s
                    \<and> sessionId (transport s) = A
                    \<and> (\<exists>t'. Handed A t' i \<in> set (observed (run cfg initial evs)))
             else ob = Dropped A i))
   \<and> (\<forall>ob \<in> set (observed (run cfg initial evs)).
        (\<forall>S t j. ob = Handed S t j \<longrightarrow> sessionId t = S)
      \<and> (\<forall>t B j. ob = Delivered t B j \<longrightarrow>
            sessionId t = B
            \<and> (\<exists>t'. Handed B t' j \<in> set (observed (run cfg initial evs)))))"
proof -
  let ?st = "run cfg initial evs"
  have s: "sound ?st"
    using sound_initial by (rule sound_run)
  then have k: "keyed (sessions ?st)" by (simp add: sound_def)
  have 1: "S = addressed rt req \<and> j = rid \<and> sessionId t = S
       \<and> (\<exists>s. sessions ?st S = Some s \<and> transport s = t)"
    if "Handed S t j \<in> set (emits cfg ?st (Request rt req rid))" for S t j
    using emits_request [OF that] k by (auto simp: keyed_def)
  have 2: "Delivered t B j \<notin> set (emits cfg ?st (Request rt req rid))" for t B j
    by (auto simp: emits_def Let_def)
  have 3: "\<exists>ob. emits cfg ?st (UpstreamResponse A i) = [ob]
         \<and> (if (A, i) \<in> set (outstanding ?st) \<and> sessions ?st A \<noteq> None
             then \<exists>s. ob = Delivered (transport s) A i
                    \<and> sessions ?st A = Some s
                    \<and> sessionId (transport s) = A
                    \<and> (\<exists>t'. Handed A t' i \<in> set (observed ?st))
             else ob = Dropped A i)"
  proof (cases "(A, i) \<in> set (outstanding ?st) \<and> sessions ?st A \<noteq> None")
    case True
    then obtain s' where s': "sessions ?st A = Some s'" by blast
    with k have "sessionId (transport s') = A" by (simp add: keyed_def)
    moreover from True s have "\<exists>t'. Handed A t' i \<in> set (observed ?st)"
      unfolding sound_def by blast
    ultimately show ?thesis
      using True s' by (simp add: emits_def dispatch_def)
  next
    case False
    then show ?thesis
      by (auto simp: emits_def dispatch_def split: option.splits)
  qed
  have 4: "(\<forall>S t j. ob = Handed S t j \<longrightarrow> sessionId t = S)
      \<and> (\<forall>t B j. ob = Delivered t B j \<longrightarrow>
            sessionId t = B \<and> (\<exists>t'. Handed B t' j \<in> set (observed ?st)))"
    if "ob \<in> set (observed ?st)" for ob
    using that s unfolding sound_def by blast
  from 1 2 3 4 show ?thesis by blast
qed

lemma connect_openConfig:
  "newTransport rt = t \<Longrightarrow> send t connectionNotification \<Longrightarrow>
   requestListener rt openConfig reg (get ''/sse'' keyHeader) =
     \<lparr>reply = NoReply,
      activeTransports = reg(sessionId t \<mapsto>
        \<lparr>transport = t, s_userId = None, s_env = None, s_apiKey = ''k1''\<rparr>),
      actions = [CreateServer None None, ServerConnect goodServer t,
                 TransportSend t connectionNotification],
      closeHandler = Some (t, goodServer)\<rparr>"
proof -
  assume t: "newTransport rt = t" and s: "send t connectionNotification"
  have cfg: "openConfig = openConfig\<lparr>createServer := (\<lambda>req uid e. Returned goodServer)\<rparr>"
    by (simp add: openConfig_def)
  have r: "route_of (endpoint openConfig) (get ''/sse'' keyHeader) = Connect"
    using route_sse_openConfig [of "\<lambda>req uid e. Returned goodServer" keyHeader] cfg by simp
  have a: "admit openConfig (requestApiKey rt openConfig (get ''/sse'' keyHeader))
             = Admitted ''k1'' None None"
    using openConfig_admits_k1 [of "\<lambda>req uid e. Returned goodServer" rt] cfg by simp
  have c: "createServer openConfig (get ''/sse'' keyHeader) None None = Returned goodServer"
    "onConnect openConfig = None"
    by (simp_all add: openConfig_def)
  have at: "attach openConfig goodServer t None =
      (Attached, [ServerConnect goodServer t, TransportSend t connectionNotification])"
    using s by (simp add: attach_def goodServer_def c)
  have "handleConnect rt openConfig reg (get ''/sse'' keyHeader) =
     \<lparr>reply = NoReply,
      activeTransports = reg(sessionId t \<mapsto>
        \<lparr>transport = t, s_userId = None, s_env = None, s_apiKey = ''k1''\<rparr>),
      actions = [CreateServer None None, ServerConnect goodServer t,
                 TransportSend t connectionNotification],
      closeHandler = Some (t, goodServer)\<rparr>"
    by (simp add: handleConnect_def a c t at)
  with r show ?thesis by (simp add: requestListener_connect)
qed

lemma post_openConfig:
  "reg sid = Some s \<Longrightarrow> sid \<noteq> [] \<Longrightarrow>
   searchParam rt u ''https://example.com'' ''sessionId'' = Returned (Some sid) \<Longrightarrow>
   startsWith u ''/messages'' \<Longrightarrow>
   requestListener rt openConfig reg (post u) =
     \<lparr>reply = NoReply, activeTransports = reg,
      actions = [HandlePostMessage (transport s)], closeHandler = None\<rparr>"
  by (simp add: requestListener_def route_of_def post_def urlStartsWith_def
      handleMessage_known)

lemma run_twoSessions:
  "run openConfig initial (take 4 twoSessions) =
     \<lparr>sessions = [''a1'' \<mapsto> \<lparr>transport = transportA, s_userId = None, s_env = None,
                             s_apiKey = ''k1''\<rparr>,
                  ''b2'' \<mapsto> \<lparr>transport = transportB, s_userId = None, s_env = None,
                             s_apiKey = ''k1''\<rparr>],
      outstanding = [(''a1'', JNum ''1''), (''b2'', JNum ''1'')],
      observed = [Announced transportA connectionNotification,
                  Announced transportB connectionNotification,
                  Handed ''a1'' transportA (JNum ''1''),
                  Handed ''b2'' transportB (JNum ''1'')]\<rparr>"
  and observed_twoSessions:
  "observed (run openConfig initial twoSessions) =
     [Announced transportA connectionNotification,
      Announced transportB connectionNotification,
      Handed ''a1'' transportA (JNum ''1''), Handed ''b2'' transportB (JNum ''1''),
      Delivered transportB ''b2'' (JNum ''1''), Delivered transportA ''a1'' (JNum ''1''),
      Dropped ''a1'' (JNum ''1'')]"
proof -
  let ?sA = "\<lparr>transport = transportA, s_userId = None, s_env = None, s_apiKey = ''k1''\<rparr>"
  let ?sB = "\<lparr>transport = transportB, s_userId = None, s_env = None, s_apiKey = ''k1''\<rparr>"
  let ?reg = "[''a1'' \<mapsto> ?sA, ''b2'' \<mapsto> ?sB]"
  let ?n = connectionNotification
  have ta: "newTransport runtimeA = transportA" "send transportA connectionNotification"
    "sessionId transportA = ''a1''"
    by (simp_all add: runtimeA_def transportA_def)
  have tb: "newTransport runtimeB = transportB" "send transportB connectionNotification"
    "sessionId transportB = ''b2''"
    by (simp_all add: runtimeB_def transportB_def)
  have pa: "searchParam runtimeA ''/messages?sessionId=a1'' ''https://example.com''
              ''sessionId'' = Returned (Some ''a1'')"
    by (simp add: runtimeA_def plainSearchParam_def queryOf_def)
  have pb: "searchParam runtimeA ''/messages?sessionId=b2'' ''https://example.com''
              ''sessionId'' = Returned (Some ''b2'')"
    by (simp add: runtimeA_def plainSearchParam_def queryOf_def)
  have s1: "step openConfig initial (Request runtimeA (get ''/sse'' keyHeader) JNull)
      = \<lparr>sessions = [''a1'' \<mapsto> ?sA], outstanding = [], observed = [Announced transportA ?n]\<rparr>"
    by (simp add: step_def emits_def connect_openConfig [OF ta(1,2)] ta(2,3) initial_def)
  have s2: "step openConfig \<lparr>sessions = [''a1'' \<mapsto> ?sA], outstanding = [],
         observed = [Announced transportA ?n]\<rparr>
       (Request runtimeB (get ''/sse'' keyHeader) JNull)
      = \<lparr>sessions = ?reg, outstanding = [],
         observed = [Announced transportA ?n, Announced transportB ?n]\<rparr>"
    by (simp add: step_def emits_def connect_openConfig [OF tb(1,2)] tb(2,3))
  have ra: "requestListener runtimeA openConfig ?reg (post ''/messages?sessionId=a1'') =
     \<lparr>reply = NoReply, activeTransports = ?reg,
      actions = [HandlePostMessage transportA], closeHandler = None\<rparr>"
    using post_openConfig [of ?reg "''a1''" ?sA runtimeA "''/messages?sessionId=a1''"] pa
    by (simp add: startsWith_def)
  have rb: "requestListener runtimeA openConfig ?reg (post ''/messages?sessionId=b2'') =
     \<lparr>reply = NoReply, activeTransports = ?reg,
      actions = [HandlePostMessage transportB], closeHandler = None\<rparr>"
    using post_openConfig [of ?reg "''b2''" ?sB runtimeA "''/messages?sessionId=b2''"] pb
    by (simp add: startsWith_def)
  have aa: "addressed runtimeA (post ''/messages?sessionId=a1'') = ''a1''"
    by (simp add: addressed_def post_def pa)
  have ab: "addressed runtimeA (post ''/messages?sessionId=b2'') = ''b2''"
    by (simp add: addressed_def post_def pb)
  have s3: "step openConfig \<lparr>sessions = ?reg, outstanding = [],
         observed = [Announced transportA ?n, Announced transportB ?n]\<rparr>
       (Request runtimeA (post ''/messages?sessionId=a1'') (JNum ''1''))
      = \<lparr>sessions = ?reg, outstanding = [(''a1'', JNum ''1'')],
         observed = [Announced transportA ?n, Announced transportB ?n,
                     Handed ''a1'' transportA (JNum ''1'')]\<rparr>"
    by (simp add: step_def emits_def ra aa ta(3))
  have s4: "step openConfig \<lparr>sessions = ?reg, outstanding = [(''a1'', JNum ''1'')],
         observed = [Announced transportA ?n, Announced transportB ?n,
                     Handed ''a1'' transportA (JNum ''1'')]\<rparr>
       (Request runtimeA (post ''/messages?sessionId=b2'') (JNum ''1''))
      = \<lparr>sessions = ?reg, outstanding = [(''a1'', JNum ''1''), (''b2'', JNum ''1'')],
         observed = [Announced transportA ?n, Announced transportB ?n,
                     Handed ''a1'' transportA (JNum ''1''),
                     Handed ''b2'' transportB (JNum ''1'')]\<rparr>"
    by (simp add: step_def emits_def rb ab tb(3))
  have s5: "step openConfig \<lparr>sessions = ?reg,
         outstanding = [(''a1'', JNum ''1''), (''b2'', JNum ''1'')],
         observed = [Announced transportA ?n, Announced transportB ?n,
                     Handed ''a1'' transportA (JNum ''1''),
                     Handed ''b2'' transportB (JNum ''1'')]\<rparr>
       (UpstreamResponse ''b2'' (JNum ''1''))
      = \<lparr>sessions = ?reg, outstanding = [(''a1'', JNum ''1'')],
         observed = [Announced transportA ?n, Announced transportB ?n,
                     Handed ''a1'' transportA (JNum ''1''),
                     Handed ''b2'' transportB (JNum ''1''),
                     Delivered transportB ''b2'' (JNum ''1'')]\<rparr>"
    by (simp add: step_def emits_def dispatch_def)
  have s6: "step openConfig \<lparr>sessions = ?reg, outstanding = [(''a1'', JNum ''1'')],
         observed = [Announced transportA ?n, Announced transportB ?n,
                     Handed ''a1'' transportA (JNum ''1''),
                     Handed ''b2'' transportB (JNum ''1''),
                     Delivered transportB ''b2'' (JNum ''1'')]\<rparr>
       (UpstreamResponse ''a1'' (JNum ''1''))
      = \<lparr>sessions = ?reg, outstanding = [],
         observed = [Announced transportA ?n, Announced transportB ?n,
                     Handed ''a1'' transportA (JNum ''1''),
                     Handed ''b2'' transportB (JNum ''1''),
                     Delivered transportB ''b2'' (JNum ''1''),
                     Delivered transportA ''a1'' (JNum ''1'')]\<rparr>"
    by (simp add: step_def emits_def dispatch_def)
  have s7: "step openConfig \<lparr>sessions = ?reg, outstanding = [],
         observed = [Announced transportA ?n, Announced transportB ?n,
                     Handed ''a1'' transportA (JNum ''1''),
                     Handed ''b2'' transportB (JNum ''1''),
                     Delivered transportB ''b2'' (JNum ''1''),
                     Delivered transportA ''a1'' (JNum ''1'')]\<rparr>
       (UpstreamResponse ''a1'' (JNum ''1''))
      = \<lparr>sessions = ?reg, outstanding = [],
         observed = [Announced transportA ?n, Announced transportB ?n,
                     Handed ''a1'' transportA (JNum ''1''),
                     Handed ''b2'' transportB (JNum ''1''),
                     Delivered transportB ''b2'' (JNum ''1''),
                     Delivered transportA ''a1'' (JNum ''1''),
                     Dropped ''a1'' (JNum ''1'')]\<rparr>"
    by (simp add: step_def emits_def dispatch_def)
  have tk: "take 4 twoSessions =
     [Request runtimeA (get ''/sse'' keyHeader) JNull,
      Request runtimeB (get ''/sse'' keyHeader) JNull,
      Request runtimeA (post ''/messages?sessionId=a1'') (JNum ''1''),
      Request runtimeA (post ''/messages?sessionId=b2'') (JNum ''1'')]"
    by (simp add: twoSessions_def)
  show "run openConfig initial (take 4 twoSessions) =
     \<lparr>sessions = ?reg, outstanding = [(''a1'', JNum ''1''), (''b2'', JNum ''1'')],
      observed = [Announced transportA ?n, Announced transportB ?n,
                  Handed ''a1'' transportA (JNum ''1''),
                  Handed ''b2'' transportB (JNum ''1'')]\<rparr>"
    by (simp only: run_def tk foldl.simps s1 s2 s3 s4)
  show "observed (run openConfig initial twoSessions) =
     [Announced transportA ?n, Announced transportB ?n,
      Handed ''a1'' transportA (JNum ''1''), Handed ''b2'' transportB (JNum ''1''),
      Delivered transportB ''b2'' (JNum ''1''), Delivered transportA ''a1'' (JNum ''1''),
      Dropped ''a1'' (JNum ''1'')]"
    by (simp only: run_def twoSessions_def foldl.simps s1 s2 s3 s4 s5 s6 s7 system.simps)
qed

theorem C1_no_cross_talk_witness:
  "observed (run openConfig initial twoSessions) =
     [Announced transportA connectionNotification,
      Announced transportB connectionNotification,
      Handed ''a1'' transportA (JNum ''1''), Handed ''b2'' transportB (JNum ''1''),
      Delivered transportB ''b2'' (JNum ''1''), Delivered transportA ''a1'' (JNum ''1''),
      Dropped ''a1'' (JNum ''1'')]
   \<and> emits openConfig (run openConfig initial (take 4 twoSessions))
        (UpstreamResponse ''b2'' (JNum ''1'')) = [Delivered transportB ''b2'' (JNum ''1'')]
   \<and> emits openConfig (run openConfig initial (take 4 twoSessions))
        (UpstreamResponse ''b2'' (JNum ''2'')) = [Dropped ''b2'' (JNum ''2'')]
   \<and> sessionId transportB = ''b2''
   \<and> sessionId transportA = ''a1''"
proof -
  have d: "Delivered transportB ''b2'' (JNum ''1'')
             \<in> set (observed (run openConfig initial twoSessions))"
    unfolding observed_twoSessions by simp
  have h: "Handed ''a1'' transportA (JNum ''1'')
             \<in> set (observed (run openConfig initial twoSessions))"
    unfolding observed_twoSessions by simp
  have o1: "(''b2'', JNum ''1'') \<in> set (outstanding (run openConfig initial (take 4 twoSessions)))
      \<and> sessions (run openConfig initial (take 4 twoSessions)) ''b2'' \<noteq> None"
    unfolding run_twoSessions by simp
  have o2: "(''b2'', JNum ''2'') \<notin> set (outstanding (run openConfig initial (take 4 twoSessions)))"
    unfolding run_twoSessions by simp
  have sb: "sessions (run openConfig initial (take 4 twoSessions)) ''b2'' =
      Some \<lparr>transport = transportB, s_userId = None, s_env = None, s_apiKey = ''k1''\<rparr>"
    unfolding run_twoSessions by simp
  from C1_no_cross_talk [of openConfig twoSessions runtimeA "post ''/x''" JNull "''a1''" JNull] d
  have 1: "sessionId transportB = ''b2''"
    by simp
  from C1_no_cross_talk [of openConfig twoSessions runtimeA "post ''/x''" JNull "''a1''" JNull] h
  have 2: "sessionId transportA = ''a1''"
    by simp
  from C1_no_cross_talk [of openConfig "take 4 twoSessions" runtimeA "post ''/x''" JNull
      "''b2''" "JNum ''1''"] o1 sb
  have 3: "emits openConfig (run openConfig initial (take 4 twoSessions))
        (UpstreamResponse ''b2'' (JNum ''1'')) = [Delivered transportB ''b2'' (JNum ''1'')]"
    by auto
  from C1_no_cross_talk [of openConfig "take 4 twoSessions" runtimeA "post ''/x''" JNull
      "''b2''" "JNum ''2''"] o2
  have 4: "emits openConfig (run openConfig initial (take 4 twoSessions))
        (UpstreamResponse ''b2'' (JNum ''2'')) = [Dropped ''b2'' (JNum ''2'')]"
    by auto
  from 1 2 3 4 observed_twoSessions show ?thesis by simp
qed

section \<open>The connection announcement\<close>













end
